theory Spec2Isabelle
  imports Main
begin

section \<open>JavaScript values\<close>

text \<open>
  The server is written twice in \<^verbatim>\<open>src/index.js\<close>: a JavaScript variant (a low-level
  \<^verbatim>\<open>Server\<close> with one \<^verbatim>\<open>CallToolRequestSchema\<close> handler that switches on the tool
  name) and a TypeScript variant (an \<^verbatim>\<open>McpServer\<close> with one registered callback per
  tool). Both are embedded here; a definition of the first carries the suffix \<open>_js\<close>,
  one of the second the suffix \<open>_ts\<close>, and what the two share carries none.

  Values that cross the boundaries (tool arguments, provider payloads) are JavaScript
  values. Numbers are restricted to the integers and \<open>NaN\<close> (identifiers, line numbers
  and access levels are integral); an object is the list of its own enumerable
  properties in enumeration order.
\<close>

datatype jsval =
    JUndefined
  | JNull
  | JBool bool
  | JNum int
  | JNaN
  | JStr string
  | JArr "jsval list"
  | JObj "(string \<times> jsval) list"

type_synonym obj = "(string \<times> jsval) list"

text \<open>Reading a property of an object: \<^verbatim>\<open>o.k\<close> is \<^verbatim>\<open>undefined\<close> when the key is absent.\<close>

definition property :: "obj \<Rightarrow> string \<Rightarrow> jsval" where
  "property ob k = (case map_of ob k of None \<Rightarrow> JUndefined | Some v \<Rightarrow> v)"

text \<open>ToBoolean, as used by \<^verbatim>\<open>!x\<close>, \<^verbatim>\<open>x ? a : b\<close> and \<^verbatim>\<open>x || y\<close>.\<close>

fun truthy :: "jsval \<Rightarrow> bool" where
  "truthy JUndefined = False"
| "truthy JNull = False"
| "truthy (JBool b) = b"
| "truthy (JNum n) = (n \<noteq> 0)"
| "truthy JNaN = False"
| "truthy (JStr s) = (s \<noteq> [])"
| "truthy (JArr xs) = True"
| "truthy (JObj ob) = True"

text \<open>A destructuring default \<^verbatim>\<open>{ verbose = false }\<close> applies to \<^verbatim>\<open>undefined\<close> only.\<close>

definition with_default :: "jsval \<Rightarrow> jsval \<Rightarrow> jsval" where
  "with_default d v = (if v = JUndefined then d else v)"

section \<open>Errors and responses\<close>

text \<open>
  An \<^verbatim>\<open>Error\<close> has a message and possibly a cause; the translator reads the cause as
  \<^verbatim>\<open>{ description?: string }\<close>.
\<close>

record cause =
  description :: "string option"

record error =
  message :: string
  cause :: "cause option"

definition Error :: "string \<Rightarrow> error" where
  "Error msg = \<lparr>message = msg, cause = None\<rparr>"

text \<open>
  The exception of reading a property of \<^verbatim>\<open>undefined\<close> or \<^verbatim>\<open>null\<close>, with the message
  Node gives it.
\<close>

definition js_typeof_nullish :: "jsval \<Rightarrow> string" where
  "js_typeof_nullish v = (if v = JNull then ''null'' else ''undefined'')"

definition TypeError_read :: "jsval \<Rightarrow> string \<Rightarrow> error" where
  "TypeError_read v k =
     Error (''Cannot read properties of '' @ js_typeof_nullish v @ '' (reading '' @ [CHR 0x27] @ k @ [CHR 0x27] @ '')'')"

text \<open>
  \<^verbatim>\<open>v.k\<close> for any value: throws on \<^verbatim>\<open>undefined\<close> and \<^verbatim>\<open>null\<close>, reads the property of
  an object, and is \<^verbatim>\<open>undefined\<close> on the other values (none of the keys the handlers
  read is a property of a boolean, number, string or array).
\<close>

fun member :: "jsval \<Rightarrow> string \<Rightarrow> error + jsval" where
  "member JUndefined k = Inl (TypeError_read JUndefined k)"
| "member JNull k = Inl (TypeError_read JNull k)"
| "member (JObj ob) k = Inr (property ob k)"
| "member v k = Inr JUndefined"

text \<open>\<^verbatim>\<open>MCPResponse\<close>: a list of text items and the optional failure flag.\<close>

record content_item =
  item_type :: string
  item_text :: string

record MCPResponse =
  content :: "content_item list"
  isError :: "bool option"

text \<open>The shape every handler returns on success: \<^verbatim>\<open>{ content: [{ type: "text", text }] }\<close>.\<close>

definition text_response :: "string \<Rightarrow> MCPResponse" where
  "text_response t = \<lparr>content = [\<lparr>item_type = ''text'', item_text = t\<rparr>], isError = None\<rparr>"

text \<open>\<^verbatim>\<open>a || b\<close> on an optional string: the empty string is falsy as \<^verbatim>\<open>undefined\<close> is.\<close>

definition or_else :: "string option \<Rightarrow> string \<Rightarrow> string" where
  "or_else a b = (case a of None \<Rightarrow> b | Some s \<Rightarrow> if s = [] then b else s)"

text \<open>\<^verbatim>\<open>error.cause?.description\<close>.\<close>

definition cause_description :: "error \<Rightarrow> string option" where
  "cause_description e = (case cause e of None \<Rightarrow> None | Some c \<Rightarrow> description c)"

definition formatErrorResponse :: "error \<Rightarrow> MCPResponse" where
  "formatErrorResponse e =
     \<lparr>content = [\<lparr>item_type = ''text'',
                  item_text = ''Error: '' @ message e @ '' - '' @
                              or_else (cause_description e) ''No additional details''\<rparr>],
      isError = Some True\<rparr>"

section \<open>JSON.stringify with an indentation of two spaces\<close>

text \<open>Number::toString for an integer: decimal digits, a minus sign when negative.\<close>

definition digit_char :: "nat \<Rightarrow> char" where
  "digit_char d = char_of (48 + d)"

function string_of_nat :: "nat \<Rightarrow> string" where
  "string_of_nat n =
     (if n < 10 then [digit_char n] else string_of_nat (n div 10) @ [digit_char (n mod 10)])"
  by pat_completeness auto
termination
  by (relation "measure (\<lambda>n. n)") auto

declare string_of_nat.simps [simp del]

definition string_of_int :: "int \<Rightarrow> string" where
  "string_of_int i = (if i < 0 then CHR ''-'' # string_of_nat (nat (- i)) else string_of_nat (nat i))"

text \<open>QuoteJSONString: the escapes of the two-character forms and of the other controls.\<close>

definition hex_digit :: "nat \<Rightarrow> char" where
  "hex_digit d = (if d < 10 then char_of (48 + d) else char_of (87 + d))"

definition quote_char :: "char \<Rightarrow> string" where
  "quote_char c =
     (if c = CHR 0x22 then [CHR 0x5C, CHR 0x22]
      else if c = CHR 0x5C then [CHR 0x5C, CHR 0x5C]
      else if c = CHR 0x08 then [CHR 0x5C, CHR ''b'']
      else if c = CHR 0x09 then [CHR 0x5C, CHR ''t'']
      else if c = CHR 0x0A then [CHR 0x5C, CHR ''n'']
      else if c = CHR 0x0C then [CHR 0x5C, CHR ''f'']
      else if c = CHR 0x0D then [CHR 0x5C, CHR ''r'']
      else if of_char c < (32::nat) then
        [CHR 0x5C, CHR ''u'', CHR ''0'', CHR ''0'',
         hex_digit (of_char c div 16), hex_digit (of_char c mod 16)]
      else [c])"

definition QuoteJSONString :: "string \<Rightarrow> string" where
  "QuoteJSONString s = [CHR 0x22] @ concat (map quote_char s) @ [CHR 0x22]"

text \<open>\<^verbatim>\<open>parts.join(sep)\<close>.\<close>

fun join :: "string \<Rightarrow> string list \<Rightarrow> string" where
  "join sep [] = []"
| "join sep [x] = x"
| "join sep (x # y # ys) = x @ sep @ join sep (y # ys)"

definition indent_of :: "nat \<Rightarrow> string" where
  "indent_of n = replicate (2 * n) CHR '' ''"

text \<open>
  SerializeJSONProperty at nesting depth \<open>n\<close>. An \<^verbatim>\<open>undefined\<close> array element is written
  \<^verbatim>\<open>null\<close>; a property whose value is \<^verbatim>\<open>undefined\<close> is left out of its object. The
  handlers pass arrays and objects only, so \<^verbatim>\<open>undefined\<close> is never at the top.
\<close>

fun serialize :: "nat \<Rightarrow> jsval \<Rightarrow> string" where
  "serialize n JUndefined = ''null''"
| "serialize n JNull = ''null''"
| "serialize n (JBool b) = (if b then ''true'' else ''false'')"
| "serialize n (JNum i) = string_of_int i"
| "serialize n JNaN = ''null''"
| "serialize n (JStr s) = QuoteJSONString s"
| "serialize n (JArr xs) =
     (if xs = [] then ''[]''
      else ''['' @ [CHR 0x0A] @ indent_of (Suc n) @
           join ('','' @ [CHR 0x0A] @ indent_of (Suc n)) (map (serialize (Suc n)) xs) @
           [CHR 0x0A] @ indent_of n @ '']'')"
| "serialize n (JObj ob) =
     (let partial = map (\<lambda>(k, v). QuoteJSONString k @ '': '' @ serialize (Suc n) v)
                        (filter (\<lambda>(k, v). v \<noteq> JUndefined) ob)
      in if partial = [] then ''{}''
         else ''{'' @ [CHR 0x0A] @ indent_of (Suc n) @
              join ('','' @ [CHR 0x0A] @ indent_of (Suc n)) partial @
              [CHR 0x0A] @ indent_of n @ ''}'')"

definition JSON_stringify :: "jsval \<Rightarrow> string" where
  "JSON_stringify v = serialize 0 v"

section \<open>The provider client and the ambient configuration\<close>

text \<open>
  The provider client \<^verbatim>\<open>api\<close> (the \<^verbatim>\<open>Gitlab\<close> object of the REST library) is not part of
  the repository: it is a parameter, one function per operation the handlers use. A call
  either throws an error or returns what the library's types declare: an array of
  objects for the list operations, an object for the others. What is inside those
  objects is not constrained. Every call a handler makes is recorded, with its
  arguments, in the list of calls it returns.
\<close>

record api =
  Projects_all :: "obj \<Rightarrow> error + obj list"
  MergeRequests_all :: "obj \<Rightarrow> error + obj list"
  MergeRequests_show :: "jsval \<Rightarrow> jsval \<Rightarrow> error + obj"
  MergeRequestDiscussions_all :: "jsval \<Rightarrow> jsval \<Rightarrow> error + obj list"
  MergeRequestDiscussions_create :: "jsval \<Rightarrow> jsval \<Rightarrow> jsval \<Rightarrow> obj option \<Rightarrow> error + obj"
  MergeRequests_allDiffs :: "jsval \<Rightarrow> jsval \<Rightarrow> error + obj list"
  Issues_show :: "jsval \<Rightarrow> obj \<Rightarrow> error + obj"
  MergeRequests_edit :: "jsval \<Rightarrow> jsval \<Rightarrow> obj \<Rightarrow> error + obj"

datatype api_call =
    Call_Projects_all obj
  | Call_MergeRequests_all obj
  | Call_MergeRequests_show jsval jsval
  | Call_MergeRequestDiscussions_all jsval jsval
  | Call_MergeRequestDiscussions_create jsval jsval jsval "obj option"
  | Call_MergeRequests_allDiffs jsval jsval
  | Call_Issues_show jsval obj
  | Call_MergeRequests_edit jsval jsval obj

type_synonym outcome = "api_call list \<times> (error + MCPResponse)"

text \<open>
  The two optional filters of the environment (\<^verbatim>\<open>MR_MCP_MIN_ACCESS_LEVEL\<close> and
  \<^verbatim>\<open>MR_MCP_PROJECT_SEARCH_TERM\<close>); the token and the host only build the client. The
  JavaScript variant reads \<^verbatim>\<open>process.env\<close>, the TypeScript variant its copy \<^verbatim>\<open>config\<close>;
  both are this record.
\<close>

record EnvironmentConfig =
  minAccessLevel :: "string option"
  projectSearchTerm :: "string option"

text \<open>Truthiness of an optional string: unset and empty are both falsy.\<close>

definition truthy_env :: "string option \<Rightarrow> bool" where
  "truthy_env v = (case v of None \<Rightarrow> False | Some s \<Rightarrow> s \<noteq> [])"

text \<open>
  \<^verbatim>\<open>parseInt(s, 10)\<close>: leading white space is skipped (the ASCII white space here), one
  sign is read, then the longest run of decimal digits; no digit gives \<open>NaN\<close>.
\<close>

definition is_space :: "char \<Rightarrow> bool" where
  "is_space c = (c \<in> {CHR 0x09, CHR 0x0A, CHR 0x0B, CHR 0x0C, CHR 0x0D, CHR 0x20})"

definition is_digit :: "char \<Rightarrow> bool" where
  "is_digit c = (48 \<le> (of_char c :: nat) \<and> (of_char c :: nat) \<le> 57)"

definition digits_value :: "string \<Rightarrow> nat" where
  "digits_value ds = foldl (\<lambda>acc c. 10 * acc + (of_char c - 48)) 0 ds"

definition parseInt :: "string \<Rightarrow> jsval" where
  "parseInt s =
     (let t = dropWhile is_space s;
          negative = (t \<noteq> [] \<and> hd t = CHR ''-'');
          u = (if t \<noteq> [] \<and> (hd t = CHR ''-'' \<or> hd t = CHR ''+'') then tl t else t);
          z = takeWhile is_digit u
      in if z = [] then JNaN
         else if negative then JNum (- int (digits_value z))
         else JNum (int (digits_value z)))"

text \<open>An exception passes through the rest of a handler.\<close>

definition bindE :: "error + 'a \<Rightarrow> ('a \<Rightarrow> error + 'b) \<Rightarrow> error + 'b" where
  "bindE m f = (case m of Inl e \<Rightarrow> Inl e | Inr x \<Rightarrow> f x)"

section \<open>The projections\<close>

text \<open>Each projection is the object literal of the source, property by property.\<close>

definition FilteredProject :: "obj \<Rightarrow> jsval" where
  "FilteredProject project = JObj
     [(''id'', property project ''id''),
      (''description'', property project ''description''),
      (''name'', property project ''name''),
      (''path'', property project ''path''),
      (''path_with_namespace'', property project ''path_with_namespace''),
      (''web_url'', property project ''web_url''),
      (''default_branch'', property project ''default_branch'')]"

definition FilteredMergeRequest :: "obj \<Rightarrow> jsval" where
  "FilteredMergeRequest mr = JObj
     [(''iid'', property mr ''iid''),
      (''project_id'', property mr ''project_id''),
      (''title'', property mr ''title''),
      (''description'', property mr ''description''),
      (''state'', property mr ''state''),
      (''web_url'', property mr ''web_url'')]"

definition FilteredMergeRequestDetails :: "obj \<Rightarrow> jsval" where
  "FilteredMergeRequestDetails mr = JObj
     [(''title'', property mr ''title''),
      (''description'', property mr ''description''),
      (''state'', property mr ''state''),
      (''web_url'', property mr ''web_url''),
      (''target_branch'', property mr ''target_branch''),
      (''source_branch'', property mr ''source_branch''),
      (''merge_status'', property mr ''merge_status''),
      (''detailed_merge_status'', property mr ''detailed_merge_status''),
      (''diff_refs'', property mr ''diff_refs'')]"

definition FilteredIssue :: "obj \<Rightarrow> jsval" where
  "FilteredIssue issue = JObj
     [(''title'', property issue ''title''),
      (''description'', property issue ''description'')]"

text \<open>
  The note projections read \<^verbatim>\<open>note.author.name\<close> in the JavaScript variant, which
  throws when the author is \<^verbatim>\<open>undefined\<close> or \<^verbatim>\<open>null\<close>, and \<^verbatim>\<open>note.author?.name\<close> in
  the TypeScript variant, which is \<^verbatim>\<open>undefined\<close> there.
\<close>

definition author_name_js :: "jsval \<Rightarrow> error + jsval" where
  "author_name_js note = bindE (member note ''author'') (\<lambda>author. member author ''name'')"

definition author_name_ts :: "jsval \<Rightarrow> error + jsval" where
  "author_name_ts note = bindE (member note ''author'') (\<lambda>author.
     if author = JUndefined \<or> author = JNull then Inr JUndefined else member author ''name'')"

definition FilteredDiscussionNote :: "(jsval \<Rightarrow> error + jsval) \<Rightarrow> jsval \<Rightarrow> error + jsval" where
  "FilteredDiscussionNote author_name note =
     bindE (member note ''id'') (\<lambda>id.
     bindE (member note ''noteable_id'') (\<lambda>noteable_id.
     bindE (member note ''body'') (\<lambda>body.
     bindE (author_name note) (\<lambda>name.
       Inr (JObj [(''id'', id), (''noteable_id'', noteable_id), (''body'', body),
                  (''author_name'', name)])))))"

definition FilteredDiffNote :: "(jsval \<Rightarrow> error + jsval) \<Rightarrow> jsval \<Rightarrow> error + jsval" where
  "FilteredDiffNote author_name note =
     bindE (member note ''id'') (\<lambda>id.
     bindE (member note ''noteable_id'') (\<lambda>noteable_id.
     bindE (member note ''body'') (\<lambda>body.
     bindE (author_name note) (\<lambda>name.
     bindE (member note ''position'') (\<lambda>position.
       Inr (JObj [(''id'', id), (''noteable_id'', noteable_id), (''body'', body),
                  (''author_name'', name), (''position'', position)]))))))"

text \<open>
  \<^verbatim>\<open>xs.filter(p)\<close> and \<^verbatim>\<open>xs.map(f)\<close> with a callback that may throw: the elements are
  visited in order and the first exception ends the loop.
\<close>

fun filterE :: "('a \<Rightarrow> error + bool) \<Rightarrow> 'a list \<Rightarrow> error + 'a list" where
  "filterE p [] = Inr []"
| "filterE p (x # xs) =
     bindE (p x) (\<lambda>keep. bindE (filterE p xs) (\<lambda>rest. Inr (if keep then x # rest else rest)))"

fun mapE :: "('a \<Rightarrow> error + 'b) \<Rightarrow> 'a list \<Rightarrow> error + 'b list" where
  "mapE f [] = Inr []"
| "mapE f (x # xs) = bindE (f x) (\<lambda>y. bindE (mapE f xs) (\<lambda>ys. Inr (y # ys)))"

text \<open>
  \<^verbatim>\<open>discussions.flatMap(note => note.notes)\<close>: an array is spliced in, any other value
  (a missing \<^verbatim>\<open>notes\<close> is \<^verbatim>\<open>undefined\<close>) is kept as one element.
\<close>

definition flatMap_notes :: "obj list \<Rightarrow> jsval list" where
  "flatMap_notes discussions =
     concat (map (\<lambda>note. case property note ''notes'' of JArr ns \<Rightarrow> ns | v \<Rightarrow> [v]) discussions)"

definition is_unresolved :: "jsval \<Rightarrow> error + bool" where
  "is_unresolved note = bindE (member note ''resolved'') (\<lambda>r. Inr (r = JBool False))"

definition has_type :: "string \<Rightarrow> jsval \<Rightarrow> error + bool" where
  "has_type t note = bindE (member note ''type'') (\<lambda>ty. Inr (ty = JStr t))"

text \<open>The part of \<^verbatim>\<open>getMergeRequestComments\<close> after the verbose branch, up to the text.\<close>

definition FilteredComments :: "(jsval \<Rightarrow> error + jsval) \<Rightarrow> obj list \<Rightarrow> error + jsval" where
  "FilteredComments author_name discussions =
     bindE (filterE is_unresolved (flatMap_notes discussions)) (\<lambda>unresolvedNotes.
     bindE (filterE (has_type ''DiscussionNote'') unresolvedNotes) (\<lambda>ds.
     bindE (mapE (FilteredDiscussionNote author_name) ds) (\<lambda>disscussionNotes.
     bindE (filterE (has_type ''DiffNote'') unresolvedNotes) (\<lambda>fs.
     bindE (mapE (FilteredDiffNote author_name) fs) (\<lambda>diffNotes.
       Inr (JObj [(''disscussionNotes'', JArr disscussionNotes),
                  (''diffNotes'', JArr diffNotes)]))))))"

section \<open>The handlers shared by the two variants\<close>

text \<open>
  \<^verbatim>\<open>getProjects\<close> is the same function in both variants: it has no required argument.
  The filter is built from the environment, the membership scope is always there.
\<close>

definition projectFilter :: "EnvironmentConfig \<Rightarrow> obj" where
  "projectFilter config =
     (if truthy_env (minAccessLevel config)
      then [(''minAccessLevel'', case minAccessLevel config of Some s \<Rightarrow> parseInt s | None \<Rightarrow> JNaN)]
      else []) @
     (if truthy_env (projectSearchTerm config)
      then [(''search'', case projectSearchTerm config of Some s \<Rightarrow> JStr s | None \<Rightarrow> JUndefined)]
      else [])"

definition getProjects :: "api \<Rightarrow> EnvironmentConfig \<Rightarrow> obj \<Rightarrow> outcome" where
  "getProjects api config args =
     (let verbose = with_default (JBool False) (property args ''verbose'');
          request = (''membership'', JBool True) # projectFilter config
      in ([Call_Projects_all request],
          bindE (Projects_all api request) (\<lambda>projects.
            let filteredProjects =
                  (if truthy verbose then map JObj projects else map FilteredProject projects);
                projectsText =
                  (if filteredProjects \<noteq> [] then JSON_stringify (JArr filteredProjects)
                   else ''No projects found.'')
            in Inr (text_response projectsText))))"

section \<open>The handlers of the JavaScript variant\<close>

text \<open>
  Each handler destructures its arguments and calls the provider at once: there is no
  check of the arguments in this variant.
\<close>

definition listOpenMergeRequests_js :: "api \<Rightarrow> obj \<Rightarrow> outcome" where
  "listOpenMergeRequests_js api args =
     (let verbose = with_default (JBool False) (property args ''verbose'');
          project_id = property args ''project_id'';
          request = [(''projectId'', project_id), (''state'', JStr ''opened'')]
      in ([Call_MergeRequests_all request],
          bindE (MergeRequests_all api request) (\<lambda>mergeRequests.
            let filteredMergeRequests =
                  (if truthy verbose then map JObj mergeRequests
                   else map FilteredMergeRequest mergeRequests)
            in Inr (text_response (JSON_stringify (JArr filteredMergeRequests))))))"

definition getMergeRequestDetails_js :: "api \<Rightarrow> obj \<Rightarrow> outcome" where
  "getMergeRequestDetails_js api args =
     (let project_id = property args ''project_id'';
          merge_request_iid = property args ''merge_request_iid'';
          verbose = with_default (JBool False) (property args ''verbose'')
      in ([Call_MergeRequests_show project_id merge_request_iid],
          bindE (MergeRequests_show api project_id merge_request_iid) (\<lambda>mr.
            let filteredMr = (if truthy verbose then JObj mr else FilteredMergeRequestDetails mr)
            in Inr (text_response (JSON_stringify filteredMr)))))"

definition getMergeRequestComments_js :: "api \<Rightarrow> obj \<Rightarrow> outcome" where
  "getMergeRequestComments_js api args =
     (let project_id = property args ''project_id'';
          merge_request_iid = property args ''merge_request_iid'';
          verbose = with_default (JBool False) (property args ''verbose'')
      in ([Call_MergeRequestDiscussions_all project_id merge_request_iid],
          bindE (MergeRequestDiscussions_all api project_id merge_request_iid) (\<lambda>discussions.
            if truthy verbose
            then Inr (text_response (JSON_stringify (JArr (map JObj discussions))))
            else bindE (FilteredComments author_name_js discussions) (\<lambda>filteredComments.
                   Inr (text_response (JSON_stringify filteredComments))))))"

definition addMergeRequestComment_js :: "api \<Rightarrow> obj \<Rightarrow> outcome" where
  "addMergeRequestComment_js api args =
     (let project_id = property args ''project_id'';
          merge_request_iid = property args ''merge_request_iid'';
          comment = property args ''comment''
      in ([Call_MergeRequestDiscussions_create project_id merge_request_iid comment None],
          bindE (MergeRequestDiscussions_create api project_id merge_request_iid comment None)
            (\<lambda>note. Inr (text_response (JSON_stringify (JObj note))))))"

text \<open>The position of a diff comment, with the property names of the JavaScript variant.\<close>

definition position_js :: "obj \<Rightarrow> obj" where
  "position_js args =
     [(''base_sha'', property args ''base_sha''),
      (''start_sha'', property args ''start_sha''),
      (''head_sha'', property args ''head_sha''),
      (''old_path'', property args ''file_path''),
      (''new_path'', property args ''file_path''),
      (''position_type'', JStr ''text''),
      (''new_line'', property args ''line_number'')]"

definition addMergeRequestDiffComment_js :: "api \<Rightarrow> obj \<Rightarrow> outcome" where
  "addMergeRequestDiffComment_js api args =
     (let project_id = property args ''project_id'';
          merge_request_iid = property args ''merge_request_iid'';
          comment = property args ''comment'';
          options = [(''position'', JObj (position_js args))]
      in ([Call_MergeRequestDiscussions_create project_id merge_request_iid comment (Some options)],
          bindE (MergeRequestDiscussions_create api project_id merge_request_iid comment (Some options))
            (\<lambda>discussion. Inr (text_response (JSON_stringify (JObj discussion))))))"

definition getMergeRequestDiff_js :: "api \<Rightarrow> obj \<Rightarrow> outcome" where
  "getMergeRequestDiff_js api args =
     (let project_id = property args ''project_id'';
          merge_request_iid = property args ''merge_request_iid''
      in ([Call_MergeRequests_allDiffs project_id merge_request_iid],
          bindE (MergeRequests_allDiffs api project_id merge_request_iid) (\<lambda>diff.
            let diffText =
                  (if diff \<noteq> [] then JSON_stringify (JArr (map JObj diff))
                   else ''No diff data available for this merge request.'')
            in Inr (text_response diffText))))"

definition getIssueDetails_js :: "api \<Rightarrow> obj \<Rightarrow> outcome" where
  "getIssueDetails_js api args =
     (let project_id = property args ''project_id'';
          issue_iid = property args ''issue_iid'';
          verbose = with_default (JBool False) (property args ''verbose'');
          options = [(''projectId'', project_id)]
      in ([Call_Issues_show issue_iid options],
          bindE (Issues_show api issue_iid options) (\<lambda>issue.
            let filteredIssue = (if truthy verbose then JObj issue else FilteredIssue issue)
            in Inr (text_response (JSON_stringify filteredIssue)))))"

definition setMergeRequestDescription_js :: "api \<Rightarrow> obj \<Rightarrow> outcome" where
  "setMergeRequestDescription_js api args =
     (let project_id = property args ''project_id'';
          merge_request_iid = property args ''merge_request_iid'';
          fields = [(''description'', property args ''description'')]
      in ([Call_MergeRequests_edit project_id merge_request_iid fields],
          bindE (MergeRequests_edit api project_id merge_request_iid fields)
            (\<lambda>mr. Inr (text_response (JSON_stringify (JObj mr))))))"

definition setMergeRequestTitle_js :: "api \<Rightarrow> obj \<Rightarrow> outcome" where
  "setMergeRequestTitle_js api args =
     (let project_id = property args ''project_id'';
          merge_request_iid = property args ''merge_request_iid'';
          fields = [(''title'', property args ''title'')]
      in ([Call_MergeRequests_edit project_id merge_request_iid fields],
          bindE (MergeRequests_edit api project_id merge_request_iid fields)
            (\<lambda>mr. Inr (text_response (JSON_stringify (JObj mr))))))"

section \<open>The registry and the dispatcher of the JavaScript variant\<close>

text \<open>
  A tool descriptor: its name and, from its input schema, the type of each property and
  the list of required properties (the descriptions are documentation only).
\<close>

record inputSchema =
  properties :: "(string \<times> string) list"
  required :: "string list"

record tool =
  name :: string
  schema :: inputSchema

definition tools :: "tool list" where
  "tools =
    [\<lparr>name = ''get_projects'',
      schema = \<lparr>properties = [(''verbose'', ''boolean'')], required = []\<rparr>\<rparr>,
     \<lparr>name = ''list_open_merge_requests'',
      schema = \<lparr>properties = [(''project_id'', ''number''), (''verbose'', ''boolean'')],
                required = [''project_id'']\<rparr>\<rparr>,
     \<lparr>name = ''get_merge_request_details'',
      schema = \<lparr>properties = [(''project_id'', ''number''), (''merge_request_iid'', ''number''),
                              (''verbose'', ''boolean'')],
                required = [''project_id'', ''merge_request_iid'']\<rparr>\<rparr>,
     \<lparr>name = ''get_merge_request_comments'',
      schema = \<lparr>properties = [(''project_id'', ''number''), (''merge_request_iid'', ''number''),
                              (''verbose'', ''boolean'')],
                required = [''project_id'', ''merge_request_iid'']\<rparr>\<rparr>,
     \<lparr>name = ''add_merge_request_comment'',
      schema = \<lparr>properties = [(''project_id'', ''number''), (''merge_request_iid'', ''number''),
                              (''comment'', ''string'')],
                required = [''project_id'', ''merge_request_iid'', ''comment'']\<rparr>\<rparr>,
     \<lparr>name = ''add_merge_request_diff_comment'',
      schema = \<lparr>properties = [(''project_id'', ''number''), (''merge_request_iid'', ''number''),
                              (''comment'', ''string''), (''base_sha'', ''string''),
                              (''start_sha'', ''string''), (''head_sha'', ''string''),
                              (''file_path'', ''string''), (''line_number'', ''string'')],
                required = [''project_id'', ''merge_request_iid'', ''comment'', ''base_sha'',
                            ''start_sha'', ''head_sha'', ''file_path'', ''line_number'']\<rparr>\<rparr>,
     \<lparr>name = ''get_merge_request_diff'',
      schema = \<lparr>properties = [(''project_id'', ''number''), (''merge_request_iid'', ''number'')],
                required = [''project_id'', ''merge_request_iid'']\<rparr>\<rparr>,
     \<lparr>name = ''get_issue_details'',
      schema = \<lparr>properties = [(''project_id'', ''number''), (''issue_iid'', ''number''),
                              (''verbose'', ''boolean'')],
                required = [''project_id'', ''issue_iid'']\<rparr>\<rparr>,
     \<lparr>name = ''set_merge_request_description'',
      schema = \<lparr>properties = [(''project_id'', ''number''), (''merge_request_iid'', ''number''),
                              (''description'', ''string'')],
                required = [''project_id'', ''merge_request_iid'', ''description'']\<rparr>\<rparr>,
     \<lparr>name = ''set_merge_request_title'',
      schema = \<lparr>properties = [(''project_id'', ''number''), (''merge_request_iid'', ''number''),
                              (''title'', ''string'')],
                required = [''project_id'', ''merge_request_iid'', ''title'']\<rparr>\<rparr>]"

text \<open>
  The body of the \<^verbatim>\<open>try\<close> block of the call handler: the \<^verbatim>\<open>switch\<close> on the tool name,
  whose default case throws. The writes to the error console are not modelled. The
  arguments of a request are an object here; a request that carries no arguments at all
  is outside the model.
\<close>

definition CallToolRequest_try :: "api \<Rightarrow> EnvironmentConfig \<Rightarrow> string \<Rightarrow> obj \<Rightarrow> outcome" where
  "CallToolRequest_try api env nm args =
     (if nm = ''get_projects'' then getProjects api env args
      else if nm = ''list_open_merge_requests'' then listOpenMergeRequests_js api args
      else if nm = ''get_merge_request_details'' then getMergeRequestDetails_js api args
      else if nm = ''get_merge_request_comments'' then getMergeRequestComments_js api args
      else if nm = ''add_merge_request_comment'' then addMergeRequestComment_js api args
      else if nm = ''add_merge_request_diff_comment'' then addMergeRequestDiffComment_js api args
      else if nm = ''get_merge_request_diff'' then getMergeRequestDiff_js api args
      else if nm = ''get_issue_details'' then getIssueDetails_js api args
      else if nm = ''set_merge_request_description'' then setMergeRequestDescription_js api args
      else if nm = ''set_merge_request_title'' then setMergeRequestTitle_js api args
      else ([], Inl (Error (''Unknown tool: '' @ nm))))"

text \<open>\<^verbatim>\<open>try { ... return result } catch (error) { return formatErrorResponse(error) }\<close>.\<close>

definition catch_format :: "outcome \<Rightarrow> api_call list \<times> MCPResponse" where
  "catch_format out =
     (case out of
        (calls, Inl e) \<Rightarrow> (calls, formatErrorResponse e)
      | (calls, Inr result) \<Rightarrow> (calls, result))"

definition CallToolRequest_handler ::
  "api \<Rightarrow> EnvironmentConfig \<Rightarrow> string \<Rightarrow> obj \<Rightarrow> api_call list \<times> MCPResponse" where
  "CallToolRequest_handler api env nm args = catch_format (CallToolRequest_try api env nm args)"

section \<open>The handlers of the TypeScript variant\<close>

text \<open>
  Each handler with required arguments tests them with \<^verbatim>\<open>!x\<close> and throws before it
  calls the provider.
\<close>

definition listOpenMergeRequests_ts :: "api \<Rightarrow> obj \<Rightarrow> outcome" where
  "listOpenMergeRequests_ts api args =
     (let verbose = with_default (JBool False) (property args ''verbose'');
          project_id = property args ''project_id''
      in if \<not> truthy project_id then ([], Inl (Error ''project_id is required''))
         else
           let request = [(''projectId'', project_id), (''state'', JStr ''opened'')]
           in ([Call_MergeRequests_all request],
               bindE (MergeRequests_all api request) (\<lambda>mergeRequests.
                 let filteredMergeRequests =
                       (if truthy verbose then map JObj mergeRequests
                        else map FilteredMergeRequest mergeRequests)
                 in Inr (text_response (JSON_stringify (JArr filteredMergeRequests))))))"

definition getMergeRequestDetails_ts :: "api \<Rightarrow> obj \<Rightarrow> outcome" where
  "getMergeRequestDetails_ts api args =
     (let project_id = property args ''project_id'';
          merge_request_iid = property args ''merge_request_iid'';
          verbose = with_default (JBool False) (property args ''verbose'')
      in if \<not> truthy project_id \<or> \<not> truthy merge_request_iid
         then ([], Inl (Error ''project_id and merge_request_iid are required''))
         else ([Call_MergeRequests_show project_id merge_request_iid],
               bindE (MergeRequests_show api project_id merge_request_iid) (\<lambda>mr.
                 let filteredMr =
                       (if truthy verbose then JObj mr else FilteredMergeRequestDetails mr)
                 in Inr (text_response (JSON_stringify filteredMr)))))"

definition getMergeRequestComments_ts :: "api \<Rightarrow> obj \<Rightarrow> outcome" where
  "getMergeRequestComments_ts api args =
     (let project_id = property args ''project_id'';
          merge_request_iid = property args ''merge_request_iid'';
          verbose = with_default (JBool False) (property args ''verbose'')
      in if \<not> truthy project_id \<or> \<not> truthy merge_request_iid
         then ([], Inl (Error ''project_id and merge_request_iid are required''))
         else ([Call_MergeRequestDiscussions_all project_id merge_request_iid],
               bindE (MergeRequestDiscussions_all api project_id merge_request_iid) (\<lambda>discussions.
                 if truthy verbose
                 then Inr (text_response (JSON_stringify (JArr (map JObj discussions))))
                 else bindE (FilteredComments author_name_ts discussions) (\<lambda>filteredComments.
                        Inr (text_response (JSON_stringify filteredComments))))))"

definition addMergeRequestComment_ts :: "api \<Rightarrow> obj \<Rightarrow> outcome" where
  "addMergeRequestComment_ts api args =
     (let project_id = property args ''project_id'';
          merge_request_iid = property args ''merge_request_iid'';
          comment = property args ''comment''
      in if \<not> truthy project_id \<or> \<not> truthy merge_request_iid \<or> \<not> truthy comment
         then ([], Inl (Error ''project_id, merge_request_iid, and comment are required''))
         else ([Call_MergeRequestDiscussions_create project_id merge_request_iid comment None],
               bindE (MergeRequestDiscussions_create api project_id merge_request_iid comment None)
                 (\<lambda>note. Inr (text_response (JSON_stringify (JObj note))))))"

text \<open>The position of a diff comment, with the property names of the TypeScript variant.\<close>

definition position_ts :: "obj \<Rightarrow> obj" where
  "position_ts args =
     [(''baseSha'', property args ''base_sha''),
      (''startSha'', property args ''start_sha''),
      (''headSha'', property args ''head_sha''),
      (''oldPath'', property args ''file_path''),
      (''newPath'', property args ''file_path''),
      (''positionType'', JStr ''text''),
      (''newLine'', property args ''line_number'')]"

definition addMergeRequestDiffComment_ts :: "api \<Rightarrow> obj \<Rightarrow> outcome" where
  "addMergeRequestDiffComment_ts api args =
     (let project_id = property args ''project_id'';
          merge_request_iid = property args ''merge_request_iid'';
          comment = property args ''comment'';
          base_sha = property args ''base_sha'';
          start_sha = property args ''start_sha'';
          head_sha = property args ''head_sha'';
          file_path = property args ''file_path'';
          line_number = property args ''line_number''
      in if \<not> truthy project_id \<or> \<not> truthy merge_request_iid \<or> \<not> truthy comment \<or>
            \<not> truthy base_sha \<or> \<not> truthy start_sha \<or> \<not> truthy head_sha \<or>
            \<not> truthy file_path \<or> \<not> truthy line_number
         then ([], Inl (Error
           ''project_id, merge_request_iid, comment, base_sha, start_sha, head_sha, file_path, and line_number are required''))
         else
           let options = [(''position'', JObj (position_ts args))]
           in ([Call_MergeRequestDiscussions_create project_id merge_request_iid comment (Some options)],
               bindE (MergeRequestDiscussions_create api project_id merge_request_iid comment
                        (Some options))
                 (\<lambda>discussion. Inr (text_response (JSON_stringify (JObj discussion))))))"

definition getMergeRequestDiff_ts :: "api \<Rightarrow> obj \<Rightarrow> outcome" where
  "getMergeRequestDiff_ts api args =
     (let project_id = property args ''project_id'';
          merge_request_iid = property args ''merge_request_iid''
      in if \<not> truthy project_id \<or> \<not> truthy merge_request_iid
         then ([], Inl (Error ''project_id and merge_request_iid are required''))
         else ([Call_MergeRequests_allDiffs project_id merge_request_iid],
               bindE (MergeRequests_allDiffs api project_id merge_request_iid) (\<lambda>diff.
                 let diffText =
                       (if diff \<noteq> [] then JSON_stringify (JArr (map JObj diff))
                        else ''No diff data available for this merge request.'')
                 in Inr (text_response diffText))))"

definition getIssueDetails_ts :: "api \<Rightarrow> obj \<Rightarrow> outcome" where
  "getIssueDetails_ts api args =
     (let project_id = property args ''project_id'';
          issue_iid = property args ''issue_iid'';
          verbose = with_default (JBool False) (property args ''verbose'')
      in if \<not> truthy project_id \<or> \<not> truthy issue_iid
         then ([], Inl (Error ''project_id and issue_iid are required''))
         else
           let options = [(''projectId'', project_id)]
           in ([Call_Issues_show issue_iid options],
               bindE (Issues_show api issue_iid options) (\<lambda>issue.
                 let filteredIssue = (if truthy verbose then JObj issue else FilteredIssue issue)
                 in Inr (text_response (JSON_stringify filteredIssue)))))"

definition setMergeRequestDescription_ts :: "api \<Rightarrow> obj \<Rightarrow> outcome" where
  "setMergeRequestDescription_ts api args =
     (let project_id = property args ''project_id'';
          merge_request_iid = property args ''merge_request_iid'';
          descr = property args ''description''
      in if \<not> truthy project_id \<or> \<not> truthy merge_request_iid \<or> \<not> truthy descr
         then ([], Inl (Error ''project_id, merge_request_iid, and description are required''))
         else
           let fields = [(''description'', descr)]
           in ([Call_MergeRequests_edit project_id merge_request_iid fields],
               bindE (MergeRequests_edit api project_id merge_request_iid fields)
                 (\<lambda>mr. Inr (text_response (JSON_stringify (JObj mr))))))"

definition setMergeRequestTitle_ts :: "api \<Rightarrow> obj \<Rightarrow> outcome" where
  "setMergeRequestTitle_ts api args =
     (let project_id = property args ''project_id'';
          merge_request_iid = property args ''merge_request_iid'';
          title = property args ''title''
      in if \<not> truthy project_id \<or> \<not> truthy merge_request_iid \<or> \<not> truthy title
         then ([], Inl (Error ''project_id, merge_request_iid, and title are required''))
         else
           let fields = [(''title'', title)]
           in ([Call_MergeRequests_edit project_id merge_request_iid fields],
               bindE (MergeRequests_edit api project_id merge_request_iid fields)
                 (\<lambda>mr. Inr (text_response (JSON_stringify (JObj mr))))))"

section \<open>The registrations of the TypeScript variant\<close>

text \<open>
  \<^verbatim>\<open>server.registerTool(name, { inputSchema }, callback)\<close>, ten times. A schema field is
  a \<^verbatim>\<open>zod\<close> type; a field is required unless it is \<^verbatim>\<open>optional()\<close>. Every callback is
  \<^verbatim>\<open>try { return await handler(args) } catch (error) { return formatErrorResponse(error) }\<close>.
  What the server library does with a request before it calls a callback is not part of
  the repository; the callbacks are modelled on every argument object.
\<close>

datatype ztype = ZNumber | ZString | ZBoolean | ZOptional ztype

record registration =
  tool_name :: string
  input :: "(string \<times> ztype) list"
  callback :: "api \<Rightarrow> EnvironmentConfig \<Rightarrow> obj \<Rightarrow> api_call list \<times> MCPResponse"

fun is_optional :: "ztype \<Rightarrow> bool" where
  "is_optional (ZOptional t) = True"
| "is_optional t = False"

definition required_fields :: "registration \<Rightarrow> string list" where
  "required_fields r = map fst (filter (\<lambda>(k, t). \<not> is_optional t) (input r))"

definition registerTool_calls :: "registration list" where
  "registerTool_calls =
    [\<lparr>tool_name = ''get_projects'',
      input = [(''verbose'', ZOptional ZBoolean)],
      callback = (\<lambda>api config args. catch_format (getProjects api config args))\<rparr>,
     \<lparr>tool_name = ''list_open_merge_requests'',
      input = [(''project_id'', ZNumber), (''verbose'', ZOptional ZBoolean)],
      callback = (\<lambda>api config args. catch_format (listOpenMergeRequests_ts api args))\<rparr>,
     \<lparr>tool_name = ''get_merge_request_details'',
      input = [(''project_id'', ZNumber), (''merge_request_iid'', ZNumber),
               (''verbose'', ZOptional ZBoolean)],
      callback = (\<lambda>api config args. catch_format (getMergeRequestDetails_ts api args))\<rparr>,
     \<lparr>tool_name = ''get_merge_request_comments'',
      input = [(''project_id'', ZNumber), (''merge_request_iid'', ZNumber),
               (''verbose'', ZOptional ZBoolean)],
      callback = (\<lambda>api config args. catch_format (getMergeRequestComments_ts api args))\<rparr>,
     \<lparr>tool_name = ''add_merge_request_comment'',
      input = [(''project_id'', ZNumber), (''merge_request_iid'', ZNumber), (''comment'', ZString)],
      callback = (\<lambda>api config args. catch_format (addMergeRequestComment_ts api args))\<rparr>,
     \<lparr>tool_name = ''add_merge_request_diff_comment'',
      input = [(''project_id'', ZNumber), (''merge_request_iid'', ZNumber), (''comment'', ZString),
               (''base_sha'', ZString), (''start_sha'', ZString), (''head_sha'', ZString),
               (''file_path'', ZString), (''line_number'', ZString)],
      callback = (\<lambda>api config args. catch_format (addMergeRequestDiffComment_ts api args))\<rparr>,
     \<lparr>tool_name = ''get_merge_request_diff'',
      input = [(''project_id'', ZNumber), (''merge_request_iid'', ZNumber)],
      callback = (\<lambda>api config args. catch_format (getMergeRequestDiff_ts api args))\<rparr>,
     \<lparr>tool_name = ''get_issue_details'',
      input = [(''project_id'', ZNumber), (''issue_iid'', ZNumber), (''verbose'', ZOptional ZBoolean)],
      callback = (\<lambda>api config args. catch_format (getIssueDetails_ts api args))\<rparr>,
     \<lparr>tool_name = ''set_merge_request_description'',
      input = [(''project_id'', ZNumber), (''merge_request_iid'', ZNumber),
               (''description'', ZString)],
      callback = (\<lambda>api config args. catch_format (setMergeRequestDescription_ts api args))\<rparr>,
     \<lparr>tool_name = ''set_merge_request_title'',
      input = [(''project_id'', ZNumber), (''merge_request_iid'', ZNumber), (''title'', ZString)],
      callback = (\<lambda>api config args. catch_format (setMergeRequestTitle_ts api args))\<rparr>]"

text \<open>
  The server library keeps the registrations by name and calls the callback registered
  under the requested name; \<open>registered\<close> is that lookup.
\<close>

definition registered :: "string \<Rightarrow> registration option" where
  "registered nm = find (\<lambda>r. tool_name r = nm) registerTool_calls"

definition call_registered ::
  "api \<Rightarrow> EnvironmentConfig \<Rightarrow> string \<Rightarrow> obj \<Rightarrow> (api_call list \<times> MCPResponse) option" where
  "call_registered api config nm args = map_option (\<lambda>r. callback r api config args) (registered nm)"

section \<open>Vocabulary of the properties\<close>

text \<open>\<open>contains_text s p\<close>: the text \<open>s\<close> contains \<open>p\<close> as a contiguous part.\<close>

fun starts_with :: "string \<Rightarrow> string \<Rightarrow> bool" where
  "starts_with s [] = True"
| "starts_with [] (p # ps) = False"
| "starts_with (c # cs) (p # ps) = (c = p \<and> starts_with cs ps)"

fun contains_text :: "string \<Rightarrow> string \<Rightarrow> bool" where
  "contains_text [] p = (p = [])"
| "contains_text (c # cs) p = (starts_with (c # cs) p \<or> contains_text cs p)"

declare contains_text.simps [simp del] starts_with.simps [simp del]

text \<open>A failure result with the given text: one text item and the flag set.\<close>

definition failure_result :: "string \<Rightarrow> MCPResponse" where
  "failure_result t = \<lparr>content = [\<lparr>item_type = ''text'', item_text = t\<rparr>], isError = Some True\<rparr>"

text \<open>
  What the partition property counts: a note is unresolved and of kind \<open>k\<close> when it is an
  object whose \<^verbatim>\<open>resolved\<close> is \<^verbatim>\<open>false\<close> and whose \<^verbatim>\<open>type\<close> is \<open>k\<close>. The notes of a
  discussion set are counted discussion by discussion.
\<close>

definition unresolved_of_kind :: "string \<Rightarrow> jsval \<Rightarrow> bool" where
  "unresolved_of_kind k note =
     (case note of
        JObj ob \<Rightarrow> property ob ''resolved'' = JBool False \<and> property ob ''type'' = JStr k
      | _ \<Rightarrow> False)"

definition notes_of :: "obj \<Rightarrow> jsval list" where
  "notes_of discussion = (case property discussion ''notes'' of JArr ns \<Rightarrow> ns | _ \<Rightarrow> [])"

fun count_notes :: "(jsval \<Rightarrow> bool) \<Rightarrow> obj list \<Rightarrow> nat" where
  "count_notes P [] = 0"
| "count_notes P (d # ds) = length (filter P (notes_of d)) + count_notes P ds"

definition kept_notes :: "string \<Rightarrow> obj list \<Rightarrow> jsval list" where
  "kept_notes k discussions = filter (unresolved_of_kind k) (concat (map notes_of discussions))"

text \<open>
  A discussion set as the provider documents it: every discussion has an array of
  notes, and every note is an object. For the JavaScript variant, which reads
  \<^verbatim>\<open>note.author.name\<close>, every note that is kept also has an author.
\<close>

fun is_object :: "jsval \<Rightarrow> bool" where
  "is_object (JObj ob) = True"
| "is_object v = False"

definition has_notes :: "obj \<Rightarrow> bool" where
  "has_notes discussion =
     (case property discussion ''notes'' of JArr ns \<Rightarrow> list_all is_object ns | _ \<Rightarrow> False)"

definition has_author :: "jsval \<Rightarrow> bool" where
  "has_author note =
     (case note of
        JObj ob \<Rightarrow> property ob ''author'' \<noteq> JUndefined \<and> property ob ''author'' \<noteq> JNull
      | _ \<Rightarrow> False)"

definition kept_have_author :: "obj \<Rightarrow> bool" where
  "kept_have_author discussion =
     list_all has_author
       (filter (\<lambda>n. unresolved_of_kind ''DiscussionNote'' n \<or> unresolved_of_kind ''DiffNote'' n)
          (notes_of discussion))"

text \<open>The entry of a note in the result, when nothing throws.\<close>

definition name_of_author :: "jsval \<Rightarrow> jsval" where
  "name_of_author note =
     (case note of
        JObj ob \<Rightarrow> (case property ob ''author'' of JObj a \<Rightarrow> property a ''name'' | _ \<Rightarrow> JUndefined)
      | _ \<Rightarrow> JUndefined)"

definition entry_of :: "string list \<Rightarrow> jsval \<Rightarrow> jsval" where
  "entry_of keys note =
     (case note of
        JObj ob \<Rightarrow> JObj (map (\<lambda>k. (k, if k = ''author_name'' then name_of_author note
                                         else property ob k)) keys)
      | _ \<Rightarrow> JUndefined)"

text \<open>
  The shape of a result: exactly one content item, of type \<^verbatim>\<open>text\<close>, and a failure flag
  that is absent or \<^verbatim>\<open>true\<close>. A handler's outcome is in order when it throws or returns
  the text shape without the flag.
\<close>

definition is_text_result :: "MCPResponse \<Rightarrow> bool" where
  "is_text_result r =
     (case content r of
        [c] \<Rightarrow> item_type c = ''text'' \<and> (isError r = None \<or> isError r = Some True)
      | _ \<Rightarrow> False)"

definition returns_text :: "outcome \<Rightarrow> bool" where
  "returns_text out =
     (case snd out of
        Inl e \<Rightarrow> True
      | Inr r \<Rightarrow> r = text_response (item_text (hd (content r))))"

text \<open>The eight arguments of \<^verbatim>\<open>add_merge_request_diff_comment\<close>.\<close>

definition eight_arguments :: "string list" where
  "eight_arguments =
     [''project_id'', ''merge_request_iid'', ''comment'', ''base_sha'', ''start_sha'',
      ''head_sha'', ''file_path'', ''line_number'']"

section \<open>Sample providers\<close>

text \<open>Concrete providers and payloads, on which the properties are evaluated.\<close>

definition sample_project :: obj where
  "sample_project =
     [(''id'', JNum 7), (''description'', JNull), (''name'', JStr ''demo''),
      (''path'', JStr ''demo''), (''path_with_namespace'', JStr ''grp/demo''),
      (''web_url'', JStr ''https://gitlab.example/grp/demo''),
      (''default_branch'', JStr ''main''), (''visibility'', JStr ''private'')]"

definition sample_mr :: obj where
  "sample_mr =
     [(''id'', JNum 900), (''iid'', JNum 3), (''project_id'', JNum 7), (''title'', JStr ''Fix''),
      (''description'', JNull), (''state'', JStr ''opened''),
      (''web_url'', JStr ''https://gitlab.example/grp/demo/-/merge_requests/3''),
      (''draft'', JBool False)]"

definition sample_note :: "int \<Rightarrow> jsval \<Rightarrow> jsval \<Rightarrow> jsval" where
  "sample_note i ty res =
     JObj [(''id'', JNum i), (''type'', ty), (''noteable_id'', JNum 900), (''body'', JStr ''ok''),
           (''author'', JObj [(''id'', JNum 1), (''name'', JStr ''Ann'')]),
           (''resolved'', res), (''position'', JObj [(''new_line'', JNum 4)])]"

definition sample_discussions :: "obj list" where
  "sample_discussions =
     [[(''id'', JStr ''d1''),
       (''notes'', JArr [sample_note 1 (JStr ''DiscussionNote'') (JBool False),
                        sample_note 2 (JStr ''DiscussionNote'') (JBool True)])],
      [(''id'', JStr ''d2''),
       (''notes'', JArr [sample_note 3 (JStr ''DiffNote'') (JBool False),
                        sample_note 4 (JStr ''DiffNote'') (JBool True),
                        sample_note 5 JNull JUndefined])]]"

definition sample_api :: api where
  "sample_api =
     \<lparr>Projects_all = (\<lambda>filter. Inr [sample_project]),
      MergeRequests_all = (\<lambda>request. Inr [sample_mr]),
      MergeRequests_show = (\<lambda>project_id iid. Inr sample_mr),
      MergeRequestDiscussions_all = (\<lambda>project_id iid. Inr sample_discussions),
      MergeRequestDiscussions_create = (\<lambda>project_id iid body options. Inr [(''id'', JStr ''d3'')]),
      MergeRequests_allDiffs = (\<lambda>project_id iid. Inr [[(''new_path'', JStr ''src/main.ts'')]]),
      Issues_show = (\<lambda>issue_iid options. Inr [(''title'', JStr ''Bug'')]),
      MergeRequests_edit = (\<lambda>project_id iid fields. Inr sample_mr)\<rparr>"

definition empty_api :: api where
  "empty_api =
     sample_api\<lparr>Projects_all := (\<lambda>filter. Inr []),
                MergeRequests_all := (\<lambda>request. Inr []),
                MergeRequestDiscussions_all := (\<lambda>project_id iid. Inr []),
                MergeRequests_allDiffs := (\<lambda>project_id iid. Inr [])\<rparr>"

definition not_found :: error where
  "not_found = \<lparr>message = ''Not Found'', cause = Some \<lparr>description = Some ''404 Project Not Found''\<rparr>\<rparr>"

definition failing_api :: api where
  "failing_api =
     \<lparr>Projects_all = (\<lambda>filter. Inl not_found),
      MergeRequests_all = (\<lambda>request. Inl not_found),
      MergeRequests_show = (\<lambda>project_id iid. Inl not_found),
      MergeRequestDiscussions_all = (\<lambda>project_id iid. Inl not_found),
      MergeRequestDiscussions_create = (\<lambda>project_id iid body options. Inl not_found),
      MergeRequests_allDiffs = (\<lambda>project_id iid. Inl not_found),
      Issues_show = (\<lambda>issue_iid options. Inl not_found),
      MergeRequests_edit = (\<lambda>project_id iid fields. Inl not_found)\<rparr>"

definition no_filters :: EnvironmentConfig where
  "no_filters = \<lparr>minAccessLevel = None, projectSearchTerm = None\<rparr>"

text \<open>The arguments of the specification's diff-comment example.\<close>

definition diff_comment_args :: obj where
  "diff_comment_args =
     [(''project_id'', JNum 7), (''merge_request_iid'', JNum 3), (''comment'', JStr ''nit''),
      (''base_sha'', JStr ''a1''), (''start_sha'', JStr ''b2''), (''head_sha'', JStr ''c3''),
      (''file_path'', JStr ''src/main.ts''), (''line_number'', JStr ''42'')]"

section \<open>Properties\<close>

subsection \<open>Helper facts\<close>

lemma registered_eqs:
  "registered ''get_projects'' = Some (registerTool_calls ! 0)"
  "registered ''list_open_merge_requests'' = Some (registerTool_calls ! 1)"
  "registered ''get_merge_request_details'' = Some (registerTool_calls ! 2)"
  "registered ''get_merge_request_comments'' = Some (registerTool_calls ! 3)"
  "registered ''add_merge_request_comment'' = Some (registerTool_calls ! 4)"
  "registered ''add_merge_request_diff_comment'' = Some (registerTool_calls ! 5)"
  "registered ''get_merge_request_diff'' = Some (registerTool_calls ! 6)"
  "registered ''get_issue_details'' = Some (registerTool_calls ! 7)"
  "registered ''set_merge_request_description'' = Some (registerTool_calls ! 8)"
  "registered ''set_merge_request_title'' = Some (registerTool_calls ! 9)"
  by (simp_all add: registered_def registerTool_calls_def)

lemma call_registered_eqs:
  "call_registered api config ''get_projects'' args =
     Some (catch_format (getProjects api config args))"
  "call_registered api config ''list_open_merge_requests'' args =
     Some (catch_format (listOpenMergeRequests_ts api args))"
  "call_registered api config ''get_merge_request_details'' args =
     Some (catch_format (getMergeRequestDetails_ts api args))"
  "call_registered api config ''get_merge_request_comments'' args =
     Some (catch_format (getMergeRequestComments_ts api args))"
  "call_registered api config ''add_merge_request_comment'' args =
     Some (catch_format (addMergeRequestComment_ts api args))"
  "call_registered api config ''add_merge_request_diff_comment'' args =
     Some (catch_format (addMergeRequestDiffComment_ts api args))"
  "call_registered api config ''get_merge_request_diff'' args =
     Some (catch_format (getMergeRequestDiff_ts api args))"
  "call_registered api config ''get_issue_details'' args =
     Some (catch_format (getIssueDetails_ts api args))"
  "call_registered api config ''set_merge_request_description'' args =
     Some (catch_format (setMergeRequestDescription_ts api args))"
  "call_registered api config ''set_merge_request_title'' args =
     Some (catch_format (setMergeRequestTitle_ts api args))"
  by (simp_all add: call_registered_def registered_eqs registerTool_calls_def)

lemma handler_eqs:
  "CallToolRequest_handler api env ''get_projects'' args =
     catch_format (getProjects api env args)"
  "CallToolRequest_handler api env ''list_open_merge_requests'' args =
     catch_format (listOpenMergeRequests_js api args)"
  "CallToolRequest_handler api env ''get_merge_request_details'' args =
     catch_format (getMergeRequestDetails_js api args)"
  "CallToolRequest_handler api env ''get_merge_request_comments'' args =
     catch_format (getMergeRequestComments_js api args)"
  "CallToolRequest_handler api env ''add_merge_request_comment'' args =
     catch_format (addMergeRequestComment_js api args)"
  "CallToolRequest_handler api env ''add_merge_request_diff_comment'' args =
     catch_format (addMergeRequestDiffComment_js api args)"
  "CallToolRequest_handler api env ''get_merge_request_diff'' args =
     catch_format (getMergeRequestDiff_js api args)"
  "CallToolRequest_handler api env ''get_issue_details'' args =
     catch_format (getIssueDetails_js api args)"
  "CallToolRequest_handler api env ''set_merge_request_description'' args =
     catch_format (setMergeRequestDescription_js api args)"
  "CallToolRequest_handler api env ''set_merge_request_title'' args =
     catch_format (setMergeRequestTitle_js api args)"
  by (simp_all add: CallToolRequest_handler_def CallToolRequest_try_def)

subsection \<open>The error translator\<close>

text \<open>
  Claim C3. For every error, the translator returns the failure-flagged result with the
  single text item \<^verbatim>\<open>"Error: " + message + " - " + d\<close>, where \<open>d\<close> is the description of
  the cause when the error has a cause with a non-empty description, and the literal
  \<^verbatim>\<open>No additional details\<close> when the cause, or its description, is missing or empty.
\<close>

theorem formatErrorResponse_text:
  "(cause e = Some c \<and> description c = Some s \<and> s \<noteq> [] \<longrightarrow>
      formatErrorResponse e =
        \<lparr>content = [\<lparr>item_type = ''text'', item_text = ''Error: '' @ message e @ '' - '' @ s\<rparr>],
         isError = Some True\<rparr>) \<and>
   (cause e = None \<or>
    (\<exists>c'. cause e = Some c' \<and> (description c' = None \<or> description c' = Some [])) \<longrightarrow>
      formatErrorResponse e =
        \<lparr>content = [\<lparr>item_type = ''text'',
                     item_text = ''Error: '' @ message e @ '' - No additional details''\<rparr>],
         isError = Some True\<rparr>)"
  by (auto simp: formatErrorResponse_def or_else_def cause_description_def)

theorem formatErrorResponse_text_witness:
  "formatErrorResponse not_found =
     \<lparr>content = [\<lparr>item_type = ''text'',
                  item_text = ''Error: Not Found - 404 Project Not Found''\<rparr>],
      isError = Some True\<rparr> \<and>
   formatErrorResponse (Error ''project_id is required'') =
     \<lparr>content = [\<lparr>item_type = ''text'',
                  item_text = ''Error: project_id is required - No additional details''\<rparr>],
      isError = Some True\<rparr>"
  using formatErrorResponse_text [of not_found "\<lparr>description = Some ''404 Project Not Found''\<rparr>"
          "''404 Project Not Found''"]
        formatErrorResponse_text [of "Error ''project_id is required''"]
  by (simp add: not_found_def Error_def)

subsection \<open>Unknown operations\<close>

text \<open>
  Claim C8. For every name that is not the name of a registered tool and every argument
  mapping, the dispatcher takes the default case of its switch, which throws
  \<^verbatim>\<open>Unknown tool: <name>\<close> without entering a handler; the result is the failure result
  with that text, and the list of provider calls is empty.
\<close>

theorem unknown_tool_fails:
  "nm \<notin> set (map name tools) \<Longrightarrow>
     CallToolRequest_try api env nm args = ([], Inl (Error (''Unknown tool: '' @ nm))) \<and>
     CallToolRequest_handler api env nm args =
       ([], \<lparr>content = [\<lparr>item_type = ''text'',
                         item_text = ''Error: Unknown tool: '' @ nm @ '' - No additional details''\<rparr>],
             isError = Some True\<rparr>)"
  by (simp add: tools_def CallToolRequest_handler_def CallToolRequest_try_def catch_format_def
        formatErrorResponse_def Error_def or_else_def cause_description_def)

theorem unknown_tool_fails_witness:
  "''not_a_tool'' \<notin> set (map name tools) \<and>
   CallToolRequest_handler sample_api no_filters ''not_a_tool'' [(''project_id'', JNum 7)] =
     ([], \<lparr>content = [\<lparr>item_type = ''text'',
                       item_text = ''Error: Unknown tool: not_a_tool - No additional details''\<rparr>],
           isError = Some True\<rparr>)"
proof -
  have absent: "''not_a_tool'' \<notin> set (map name tools)"
    by (simp add: tools_def)
  from unknown_tool_fails [OF absent, of sample_api no_filters "[(''project_id'', JNum 7)]"] absent
  show ?thesis by simp
qed

subsection \<open>Empty collections\<close>

text \<open>
  Claim C6. When the provider returns an empty list, \<^verbatim>\<open>get_projects\<close> answers with the
  text \<^verbatim>\<open>No projects found.\<close> and \<^verbatim>\<open>get_merge_request_diff\<close> with the text
  \<^verbatim>\<open>No diff data available for this merge request.\<close>, in both variants (the TypeScript
  variant reaches the provider when the two identifiers are truthy); neither text is
  the JSON text of the empty array.
\<close>

theorem empty_collection_text:
  "(Projects_all api ((''membership'', JBool True) # projectFilter env) = Inr [] \<longrightarrow>
      snd (CallToolRequest_handler api env ''get_projects'' args) =
        text_response ''No projects found.'' \<and>
      map_option snd (call_registered api env ''get_projects'' args) =
        Some (text_response ''No projects found.'')) \<and>
   (MergeRequests_allDiffs api (property args ''project_id'') (property args ''merge_request_iid'')
      = Inr [] \<longrightarrow>
      snd (CallToolRequest_handler api env ''get_merge_request_diff'' args) =
        text_response ''No diff data available for this merge request.'' \<and>
      (truthy (property args ''project_id'') \<and> truthy (property args ''merge_request_iid'') \<longrightarrow>
         map_option snd (call_registered api env ''get_merge_request_diff'' args) =
           Some (text_response ''No diff data available for this merge request.''))) \<and>
   ''No projects found.'' \<noteq> ''[]'' \<and>
   ''No diff data available for this merge request.'' \<noteq> ''[]''"
  by (simp add: handler_eqs call_registered_eqs catch_format_def getProjects_def
        getMergeRequestDiff_js_def getMergeRequestDiff_ts_def bindE_def Let_def)

theorem empty_collection_text_witness:
  "Projects_all empty_api ((''membership'', JBool True) # projectFilter no_filters) = Inr [] \<and>
   MergeRequests_allDiffs empty_api (JNum 7) (JNum 3) = Inr [] \<and>
   snd (CallToolRequest_handler empty_api no_filters ''get_projects'' []) =
     text_response ''No projects found.'' \<and>
   map_option snd (call_registered empty_api no_filters ''get_projects'' []) =
     Some (text_response ''No projects found.'') \<and>
   snd (CallToolRequest_handler empty_api no_filters ''get_merge_request_diff''
          [(''project_id'', JNum 7), (''merge_request_iid'', JNum 3)]) =
     text_response ''No diff data available for this merge request.'' \<and>
   map_option snd (call_registered empty_api no_filters ''get_merge_request_diff''
          [(''project_id'', JNum 7), (''merge_request_iid'', JNum 3)]) =
     Some (text_response ''No diff data available for this merge request.'')"
  using empty_collection_text [of empty_api no_filters "[]"]
        empty_collection_text [of empty_api no_filters
          "[(''project_id'', JNum 7), (''merge_request_iid'', JNum 3)]"]
  by (simp add: empty_api_def sample_api_def property_def)

text \<open>
  Claim C9. \<^verbatim>\<open>list_open_merge_requests\<close> has no text of its own for an empty result:
  when the provider returns an empty list the text is \<^verbatim>\<open>[]\<close>, the serialization of the
  empty array, in both variants (the TypeScript variant reaches the provider when the
  project identifier is truthy) and whatever \<^verbatim>\<open>verbose\<close> is.
\<close>

theorem list_open_merge_requests_empty:
  "MergeRequests_all api [(''projectId'', property args ''project_id''), (''state'', JStr ''opened'')]
     = Inr [] \<longrightarrow>
     snd (CallToolRequest_handler api env ''list_open_merge_requests'' args) = text_response ''[]'' \<and>
     (truthy (property args ''project_id'') \<longrightarrow>
        map_option snd (call_registered api env ''list_open_merge_requests'' args) =
          Some (text_response ''[]''))"
  by (simp add: handler_eqs call_registered_eqs catch_format_def listOpenMergeRequests_js_def
        listOpenMergeRequests_ts_def bindE_def Let_def JSON_stringify_def)

theorem list_open_merge_requests_empty_witness:
  "MergeRequests_all empty_api [(''projectId'', JNum 7), (''state'', JStr ''opened'')] = Inr [] \<and>
   truthy (JNum 7) \<and>
   snd (CallToolRequest_handler empty_api no_filters ''list_open_merge_requests''
          [(''project_id'', JNum 7)]) = text_response ''[]'' \<and>
   map_option snd (call_registered empty_api no_filters ''list_open_merge_requests''
          [(''project_id'', JNum 7)]) = Some (text_response ''[]'')"
  using list_open_merge_requests_empty [of empty_api "[(''project_id'', JNum 7)]" no_filters]
  by (simp add: empty_api_def sample_api_def property_def)

subsection \<open>Filtered lists\<close>

lemma nonverbose:
  "\<not> truthy (property args ''verbose'') \<Longrightarrow>
   \<not> truthy (with_default (JBool False) (property args ''verbose''))"
  by (simp add: with_default_def)

text \<open>
  Claim C5. In non-verbose mode (the \<^verbatim>\<open>verbose\<close> argument absent or falsy), the text of
  \<^verbatim>\<open>get_projects\<close> and of \<^verbatim>\<open>list_open_merge_requests\<close> is the serialization of a list
  that has the length of the raw provider list and whose \<open>i\<close>-th element is the object
  with exactly the fields of the operation's projection, in the projection's order,
  each read from the \<open>i\<close>-th raw element (for \<^verbatim>\<open>get_projects\<close> an empty list is answered
  by the sentence of claim C6 instead). The handlers are functions of the raw list: they
  read it and build new objects, so the raw list is what it was. In the TypeScript
  variant \<^verbatim>\<open>list_open_merge_requests\<close> reaches the provider when the project identifier
  is truthy.
\<close>

theorem filtered_lists:
  assumes "\<not> truthy (property args ''verbose'')"
  shows
   "(Projects_all api ((''membership'', JBool True) # projectFilter env) = Inr projects \<longrightarrow>
      (\<exists>filtered. length filtered = length projects \<and>
         (\<forall>i<length projects. filtered ! i =
            JObj (map (\<lambda>k. (k, property (projects ! i) k))
              [''id'', ''description'', ''name'', ''path'', ''path_with_namespace'', ''web_url'',
               ''default_branch''])) \<and>
         snd (CallToolRequest_handler api env ''get_projects'' args) =
           text_response (if projects = [] then ''No projects found.''
                          else JSON_stringify (JArr filtered)) \<and>
         map_option snd (call_registered api env ''get_projects'' args) =
           Some (text_response (if projects = [] then ''No projects found.''
                                else JSON_stringify (JArr filtered))))) \<and>
    (MergeRequests_all api [(''projectId'', property args ''project_id''), (''state'', JStr ''opened'')]
       = Inr mergeRequests \<longrightarrow>
      (\<exists>filtered. length filtered = length mergeRequests \<and>
         (\<forall>i<length mergeRequests. filtered ! i =
            JObj (map (\<lambda>k. (k, property (mergeRequests ! i) k))
              [''iid'', ''project_id'', ''title'', ''description'', ''state'', ''web_url''])) \<and>
         snd (CallToolRequest_handler api env ''list_open_merge_requests'' args) =
           text_response (JSON_stringify (JArr filtered)) \<and>
         (truthy (property args ''project_id'') \<longrightarrow>
            map_option snd (call_registered api env ''list_open_merge_requests'' args) =
              Some (text_response (JSON_stringify (JArr filtered))))))"
proof (intro conjI impI)
  assume raw: "Projects_all api ((''membership'', JBool True) # projectFilter env) = Inr projects"
  let ?filtered = "map FilteredProject projects"
  have "length ?filtered = length projects" by simp
  moreover have "\<forall>i<length projects. ?filtered ! i =
            JObj (map (\<lambda>k. (k, property (projects ! i) k))
              [''id'', ''description'', ''name'', ''path'', ''path_with_namespace'', ''web_url'',
               ''default_branch''])"
    by (simp add: FilteredProject_def)
  moreover have "getProjects api env args =
      ([Call_Projects_all ((''membership'', JBool True) # projectFilter env)],
       Inr (text_response (if projects = [] then ''No projects found.''
                           else JSON_stringify (JArr ?filtered))))"
    using raw nonverbose [OF assms] by (simp add: getProjects_def Let_def bindE_def)
  ultimately show "\<exists>filtered. length filtered = length projects \<and>
         (\<forall>i<length projects. filtered ! i =
            JObj (map (\<lambda>k. (k, property (projects ! i) k))
              [''id'', ''description'', ''name'', ''path'', ''path_with_namespace'', ''web_url'',
               ''default_branch''])) \<and>
         snd (CallToolRequest_handler api env ''get_projects'' args) =
           text_response (if projects = [] then ''No projects found.''
                          else JSON_stringify (JArr filtered)) \<and>
         map_option snd (call_registered api env ''get_projects'' args) =
           Some (text_response (if projects = [] then ''No projects found.''
                                else JSON_stringify (JArr filtered)))"
    by (intro exI [of _ ?filtered]) (simp add: handler_eqs call_registered_eqs catch_format_def)
next
  assume raw: "MergeRequests_all api
      [(''projectId'', property args ''project_id''), (''state'', JStr ''opened'')] = Inr mergeRequests"
  let ?filtered = "map FilteredMergeRequest mergeRequests"
  have "length ?filtered = length mergeRequests" by simp
  moreover have "\<forall>i<length mergeRequests. ?filtered ! i =
            JObj (map (\<lambda>k. (k, property (mergeRequests ! i) k))
              [''iid'', ''project_id'', ''title'', ''description'', ''state'', ''web_url''])"
    by (simp add: FilteredMergeRequest_def)
  moreover have "snd (listOpenMergeRequests_js api args) =
       Inr (text_response (JSON_stringify (JArr ?filtered)))"
    using raw nonverbose [OF assms] by (simp add: listOpenMergeRequests_js_def Let_def bindE_def)
  moreover have "truthy (property args ''project_id'') \<longrightarrow>
       snd (listOpenMergeRequests_ts api args) =
         Inr (text_response (JSON_stringify (JArr ?filtered)))"
    using raw nonverbose [OF assms] by (simp add: listOpenMergeRequests_ts_def Let_def bindE_def)
  ultimately show "\<exists>filtered. length filtered = length mergeRequests \<and>
         (\<forall>i<length mergeRequests. filtered ! i =
            JObj (map (\<lambda>k. (k, property (mergeRequests ! i) k))
              [''iid'', ''project_id'', ''title'', ''description'', ''state'', ''web_url''])) \<and>
         snd (CallToolRequest_handler api env ''list_open_merge_requests'' args) =
           text_response (JSON_stringify (JArr filtered)) \<and>
         (truthy (property args ''project_id'') \<longrightarrow>
            map_option snd (call_registered api env ''list_open_merge_requests'' args) =
              Some (text_response (JSON_stringify (JArr filtered))))"
    by (intro exI [of _ ?filtered])
       (auto simp add: handler_eqs call_registered_eqs catch_format_def split: prod.splits sum.splits)
qed

theorem filtered_lists_witness:
  "\<not> truthy (property [(''project_id'', JNum 7)] ''verbose'') \<and>
   Projects_all sample_api ((''membership'', JBool True) # projectFilter no_filters) =
     Inr [sample_project] \<and>
   MergeRequests_all sample_api [(''projectId'', JNum 7), (''state'', JStr ''opened'')] =
     Inr [sample_mr] \<and>
   (\<exists>filtered.
      filtered = [JObj [(''id'', JNum 7), (''description'', JNull), (''name'', JStr ''demo''),
                        (''path'', JStr ''demo''), (''path_with_namespace'', JStr ''grp/demo''),
                        (''web_url'', JStr ''https://gitlab.example/grp/demo''),
                        (''default_branch'', JStr ''main'')]] \<and>
      snd (CallToolRequest_handler sample_api no_filters ''get_projects'' [(''project_id'', JNum 7)]) =
        text_response (JSON_stringify (JArr filtered)) \<and>
      map_option snd (call_registered sample_api no_filters ''get_projects''
                        [(''project_id'', JNum 7)]) =
        Some (text_response (JSON_stringify (JArr filtered)))) \<and>
   (\<exists>filtered.
      filtered = [JObj [(''iid'', JNum 3), (''project_id'', JNum 7), (''title'', JStr ''Fix''),
                        (''description'', JNull), (''state'', JStr ''opened''),
                        (''web_url'', JStr ''https://gitlab.example/grp/demo/-/merge_requests/3'')]] \<and>
      snd (CallToolRequest_handler sample_api no_filters ''list_open_merge_requests''
             [(''project_id'', JNum 7)]) =
        text_response (JSON_stringify (JArr filtered)) \<and>
      map_option snd (call_registered sample_api no_filters ''list_open_merge_requests''
                        [(''project_id'', JNum 7)]) =
        Some (text_response (JSON_stringify (JArr filtered))))"
proof -
  let ?args = "[(''project_id'', JNum 7)]"
  have nv: "\<not> truthy (property ?args ''verbose'')"
    by (simp add: property_def)
  have raw1: "Projects_all sample_api ((''membership'', JBool True) # projectFilter no_filters) =
      Inr [sample_project]"
    by (simp add: sample_api_def)
  have raw2: "MergeRequests_all sample_api
      [(''projectId'', property ?args ''project_id''), (''state'', JStr ''opened'')] = Inr [sample_mr]"
    by (simp add: sample_api_def)
  have pid: "property ?args ''project_id'' = JNum 7" "truthy (JNum 7)"
    by (simp_all add: property_def)
  from filtered_lists [OF nv, of sample_api no_filters "[sample_project]" "[sample_mr]"] raw1 raw2
  obtain f1 f2 where
    e1: "f1 ! 0 = JObj (map (\<lambda>k. (k, property sample_project k))
              [''id'', ''description'', ''name'', ''path'', ''path_with_namespace'', ''web_url'',
               ''default_branch''])" and
    l1: "length f1 = 1" and
    js1: "snd (CallToolRequest_handler sample_api no_filters ''get_projects'' ?args) =
           text_response (JSON_stringify (JArr f1))" and
    ts1: "map_option snd (call_registered sample_api no_filters ''get_projects'' ?args) =
           Some (text_response (JSON_stringify (JArr f1)))" and
    e2: "f2 ! 0 = JObj (map (\<lambda>k. (k, property sample_mr k))
              [''iid'', ''project_id'', ''title'', ''description'', ''state'', ''web_url''])" and
    l2: "length f2 = 1" and
    js2: "snd (CallToolRequest_handler sample_api no_filters ''list_open_merge_requests'' ?args) =
           text_response (JSON_stringify (JArr f2))" and
    ts2: "truthy (property ?args ''project_id'') \<longrightarrow>
          map_option snd (call_registered sample_api no_filters ''list_open_merge_requests'' ?args) =
           Some (text_response (JSON_stringify (JArr f2)))"
    by auto
  have f1: "f1 = [JObj [(''id'', JNum 7), (''description'', JNull), (''name'', JStr ''demo''),
                        (''path'', JStr ''demo''), (''path_with_namespace'', JStr ''grp/demo''),
                        (''web_url'', JStr ''https://gitlab.example/grp/demo''),
                        (''default_branch'', JStr ''main'')]]"
    using e1 l1 by (cases f1) (simp_all add: sample_project_def property_def)
  have f2: "f2 = [JObj [(''iid'', JNum 3), (''project_id'', JNum 7), (''title'', JStr ''Fix''),
                        (''description'', JNull), (''state'', JStr ''opened''),
                        (''web_url'', JStr ''https://gitlab.example/grp/demo/-/merge_requests/3'')]]"
    using e2 l2 by (cases f2) (simp_all add: sample_mr_def property_def)
  have raw2': "MergeRequests_all sample_api [(''projectId'', JNum 7), (''state'', JStr ''opened'')] =
      Inr [sample_mr]"
    by (simp add: sample_api_def)
  show ?thesis
    using f1 f2 js1 ts1 js2 ts2 pid
    by (intro conjI nv raw1 raw2' exI [of _ f1] exI [of _ f2]) simp_all
qed

subsection \<open>Comment partition\<close>

lemma filterE_total:
  "(\<And>x. x \<in> set xs \<Longrightarrow> p x = Inr (q x)) \<Longrightarrow> filterE p xs = Inr (filter q xs)"
  by (induction xs) (simp_all add: bindE_def)

lemma mapE_total:
  "(\<And>x. x \<in> set xs \<Longrightarrow> f x = Inr (g x)) \<Longrightarrow> mapE f xs = Inr (map g xs)"
  by (induction xs) (simp_all add: bindE_def)

lemma flatMap_notes_eq:
  "list_all has_notes discussions \<Longrightarrow> flatMap_notes discussions = concat (map notes_of discussions)"
  unfolding flatMap_notes_def
  by (induction discussions) (auto simp: has_notes_def notes_of_def split: jsval.splits)

lemma notes_are_objects:
  "list_all has_notes discussions \<Longrightarrow> n \<in> set (concat (map notes_of discussions)) \<Longrightarrow> is_object n"
  by (induction discussions) (auto simp: has_notes_def notes_of_def list_all_iff split: jsval.splits)

lemma count_notes_eq:
  "count_notes P discussions = length (filter P (concat (map notes_of discussions)))"
  by (induction discussions) simp_all

lemma is_unresolved_object:
  "is_object n \<Longrightarrow> is_unresolved n = Inr (case n of JObj ob \<Rightarrow> property ob ''resolved'' = JBool False | _ \<Rightarrow> False)"
  by (cases n) (simp_all add: is_unresolved_def bindE_def)

lemma has_type_object:
  "is_object n \<Longrightarrow> has_type k n = Inr (case n of JObj ob \<Rightarrow> property ob ''type'' = JStr k | _ \<Rightarrow> False)"
  by (cases n) (simp_all add: has_type_def bindE_def)

lemma author_name_ts_object:
  "is_object n \<Longrightarrow> author_name_ts n = Inr (name_of_author n)"
  by (cases n) (auto simp: author_name_ts_def name_of_author_def bindE_def split: jsval.splits)

lemma author_name_js_object:
  "has_author n \<Longrightarrow> author_name_js n = Inr (name_of_author n)"
  by (cases n) (auto simp: author_name_js_def has_author_def name_of_author_def bindE_def split: jsval.splits)

lemma FilteredDiscussionNote_object:
  "is_object n \<Longrightarrow> author_name n = Inr (name_of_author n) \<Longrightarrow>
   FilteredDiscussionNote author_name n =
     Inr (entry_of [''id'', ''noteable_id'', ''body'', ''author_name''] n)"
  by (cases n) (simp_all add: FilteredDiscussionNote_def entry_of_def bindE_def)

lemma FilteredDiffNote_object:
  "is_object n \<Longrightarrow> author_name n = Inr (name_of_author n) \<Longrightarrow>
   FilteredDiffNote author_name n =
     Inr (entry_of [''id'', ''noteable_id'', ''body'', ''author_name'', ''position''] n)"
  by (cases n) (simp_all add: FilteredDiffNote_def entry_of_def bindE_def)

lemma FilteredComments_total:
  assumes wf: "list_all has_notes discussions"
    and au: "\<And>n. n \<in> set (kept_notes ''DiscussionNote'' discussions) \<union>
                     set (kept_notes ''DiffNote'' discussions) \<Longrightarrow>
                author_name n = Inr (name_of_author n)"
  shows "FilteredComments author_name discussions =
     Inr (JObj [(''disscussionNotes'',
                 JArr (map (entry_of [''id'', ''noteable_id'', ''body'', ''author_name''])
                        (kept_notes ''DiscussionNote'' discussions))),
                (''diffNotes'',
                 JArr (map (entry_of [''id'', ''noteable_id'', ''body'', ''author_name'', ''position''])
                        (kept_notes ''DiffNote'' discussions)))])"
proof -
  let ?notes = "concat (map notes_of discussions)"
  let ?unres = "\<lambda>n. case n of JObj ob \<Rightarrow> property ob ''resolved'' = JBool False | _ \<Rightarrow> False"
  let ?ty = "\<lambda>k n. case n of JObj ob \<Rightarrow> property ob ''type'' = JStr k | _ \<Rightarrow> False"
  have objs: "\<And>n. n \<in> set ?notes \<Longrightarrow> is_object n"
    using wf by (rule notes_are_objects)
  have step1: "filterE is_unresolved (flatMap_notes discussions) = Inr (filter ?unres ?notes)"
    unfolding flatMap_notes_eq [OF wf]
    by (rule filterE_total) (simp add: is_unresolved_object objs)
  have step2: "filterE (has_type k) (filter ?unres ?notes) = Inr (filter (?ty k) (filter ?unres ?notes))" for k
    by (rule filterE_total) (simp add: has_type_object objs)
  have kept: "filter (?ty k) (filter ?unres ?notes) = kept_notes k discussions" for k
    unfolding kept_notes_def filter_filter
    by (rule filter_cong) (auto simp: unresolved_of_kind_def split: jsval.splits)
  have obj_kept: "is_object n" if "n \<in> set (kept_notes k discussions)" for n k
    using that objs by (simp add: kept_notes_def)
  have step3: "mapE (FilteredDiscussionNote author_name) (kept_notes ''DiscussionNote'' discussions) =
      Inr (map (entry_of [''id'', ''noteable_id'', ''body'', ''author_name''])
             (kept_notes ''DiscussionNote'' discussions))"
    by (rule mapE_total) (simp add: FilteredDiscussionNote_object obj_kept au)
  have step4: "mapE (FilteredDiffNote author_name) (kept_notes ''DiffNote'' discussions) =
      Inr (map (entry_of [''id'', ''noteable_id'', ''body'', ''author_name'', ''position''])
             (kept_notes ''DiffNote'' discussions))"
    by (rule mapE_total) (simp add: FilteredDiffNote_object obj_kept au)
  have step2': "filterE (has_type k) (filter ?unres ?notes) = Inr (kept_notes k discussions)" for k
    using step2 [of k] kept [of k] by simp
  show ?thesis
    by (simp only: FilteredComments_def step1 step2' step3 step4 bindE_def sum.case)
qed

lemma unresolved_is_unresolved:
  "unresolved_of_kind k n \<Longrightarrow> member n ''resolved'' = Inr (JBool False)"
  by (cases n) (simp_all add: unresolved_of_kind_def)

lemma kept_have_author_D:
  "list_all kept_have_author discussions \<Longrightarrow>
   n \<in> set (kept_notes ''DiscussionNote'' discussions) \<union> set (kept_notes ''DiffNote'' discussions) \<Longrightarrow>
   has_author n"
  by (induction discussions) (auto simp: kept_have_author_def kept_notes_def list_all_iff)

text \<open>
  Claim C4. Let the provider return a discussion set in which every discussion has an
  array of notes that are objects, and let \<^verbatim>\<open>verbose\<close> be absent or falsy. Then the text
  of \<^verbatim>\<open>get_merge_request_comments\<close> is the serialization of the object with the two
  lists \<^verbatim>\<open>disscussionNotes\<close> and \<^verbatim>\<open>diffNotes\<close>; the first has as many entries as the set
  has unresolved notes of kind \<^verbatim>\<open>DiscussionNote\<close>, the second as many as it has
  unresolved notes of kind \<^verbatim>\<open>DiffNote\<close>; the entries are the projections of exactly
  those notes, in order, and every note behind an entry has \<^verbatim>\<open>resolved === false\<close>, so
  no resolved note is in either list. The JavaScript variant reads \<^verbatim>\<open>note.author.name\<close>
  and needs the kept notes to have an author; the TypeScript variant reaches the provider
  when both identifiers are truthy.
\<close>

theorem comment_partition:
  assumes raw: "MergeRequestDiscussions_all api (property args ''project_id'')
              (property args ''merge_request_iid'') = Inr discussions"
    and nv: "\<not> truthy (property args ''verbose'')"
    and wf: "list_all has_notes discussions"
  shows
   "\<exists>disscussionNotes diffNotes.
      length disscussionNotes = count_notes (unresolved_of_kind ''DiscussionNote'') discussions \<and>
      length diffNotes = count_notes (unresolved_of_kind ''DiffNote'') discussions \<and>
      disscussionNotes = map (entry_of [''id'', ''noteable_id'', ''body'', ''author_name''])
                           (kept_notes ''DiscussionNote'' discussions) \<and>
      diffNotes = map (entry_of [''id'', ''noteable_id'', ''body'', ''author_name'', ''position''])
                    (kept_notes ''DiffNote'' discussions) \<and>
      (\<forall>n \<in> set (kept_notes ''DiscussionNote'' discussions) \<union>
              set (kept_notes ''DiffNote'' discussions).
         member n ''resolved'' = Inr (JBool False)) \<and>
      (list_all kept_have_author discussions \<longrightarrow>
         snd (CallToolRequest_handler api env ''get_merge_request_comments'' args) =
           text_response (JSON_stringify (JObj [(''disscussionNotes'', JArr disscussionNotes),
                                                (''diffNotes'', JArr diffNotes)]))) \<and>
      (truthy (property args ''project_id'') \<and> truthy (property args ''merge_request_iid'') \<longrightarrow>
         map_option snd (call_registered api env ''get_merge_request_comments'' args) =
           Some (text_response (JSON_stringify (JObj [(''disscussionNotes'', JArr disscussionNotes),
                                                      (''diffNotes'', JArr diffNotes)]))))"
proof -
  let ?dn = "map (entry_of [''id'', ''noteable_id'', ''body'', ''author_name''])
               (kept_notes ''DiscussionNote'' discussions)"
  let ?fn = "map (entry_of [''id'', ''noteable_id'', ''body'', ''author_name'', ''position''])
               (kept_notes ''DiffNote'' discussions)"
  let ?text = "text_response (JSON_stringify (JObj [(''disscussionNotes'', JArr ?dn),
                                                   (''diffNotes'', JArr ?fn)]))"
  have objs: "is_object n" if "n \<in> set (kept_notes k discussions)" for n k
    using that notes_are_objects [OF wf] by (simp add: kept_notes_def)
  have counts: "length ?dn = count_notes (unresolved_of_kind ''DiscussionNote'') discussions"
               "length ?fn = count_notes (unresolved_of_kind ''DiffNote'') discussions"
    by (simp_all add: count_notes_eq kept_notes_def)
  have unresolved: "\<forall>n \<in> set (kept_notes ''DiscussionNote'' discussions) \<union>
              set (kept_notes ''DiffNote'' discussions). member n ''resolved'' = Inr (JBool False)"
    by (auto simp: kept_notes_def unresolved_is_unresolved)
  have ts: "FilteredComments author_name_ts discussions =
      Inr (JObj [(''disscussionNotes'', JArr ?dn), (''diffNotes'', JArr ?fn)])"
    using wf by (rule FilteredComments_total) (auto simp: author_name_ts_object objs)
  have js: "FilteredComments author_name_js discussions =
      Inr (JObj [(''disscussionNotes'', JArr ?dn), (''diffNotes'', JArr ?fn)])"
    if "list_all kept_have_author discussions"
    using wf by (rule FilteredComments_total)
      (rule author_name_js_object, rule kept_have_author_D [OF that])
  have js_text: "list_all kept_have_author discussions \<longrightarrow>
      snd (CallToolRequest_handler api env ''get_merge_request_comments'' args) = ?text"
    using raw nonverbose [OF nv] js
    by (simp add: handler_eqs catch_format_def getMergeRequestComments_js_def Let_def bindE_def)
  have ts_text: "truthy (property args ''project_id'') \<and> truthy (property args ''merge_request_iid'') \<longrightarrow>
      map_option snd (call_registered api env ''get_merge_request_comments'' args) = Some ?text"
    using raw nonverbose [OF nv] ts
    by (simp add: call_registered_eqs catch_format_def getMergeRequestComments_ts_def Let_def bindE_def)
  from counts unresolved js_text ts_text show ?thesis
    by blast
qed

theorem comment_partition_witness:
  "MergeRequestDiscussions_all sample_api (JNum 7) (JNum 3) = Inr sample_discussions \<and>
   \<not> truthy (property [(''project_id'', JNum 7), (''merge_request_iid'', JNum 3)] ''verbose'') \<and>
   list_all has_notes sample_discussions \<and>
   list_all kept_have_author sample_discussions \<and>
   count_notes (unresolved_of_kind ''DiscussionNote'') sample_discussions = 1 \<and>
   count_notes (unresolved_of_kind ''DiffNote'') sample_discussions = 1 \<and>
   (\<exists>disscussionNotes diffNotes.
      length disscussionNotes = 1 \<and> length diffNotes = 1 \<and>
      snd (CallToolRequest_handler sample_api no_filters ''get_merge_request_comments''
             [(''project_id'', JNum 7), (''merge_request_iid'', JNum 3)]) =
        text_response (JSON_stringify (JObj [(''disscussionNotes'', JArr disscussionNotes),
                                             (''diffNotes'', JArr diffNotes)])) \<and>
      map_option snd (call_registered sample_api no_filters ''get_merge_request_comments''
             [(''project_id'', JNum 7), (''merge_request_iid'', JNum 3)]) =
        Some (text_response (JSON_stringify (JObj [(''disscussionNotes'', JArr disscussionNotes),
                                                   (''diffNotes'', JArr diffNotes)]))))"
proof -
  let ?args = "[(''project_id'', JNum 7), (''merge_request_iid'', JNum 3)]"
  have raw: "MergeRequestDiscussions_all sample_api (property ?args ''project_id'')
      (property ?args ''merge_request_iid'') = Inr sample_discussions"
    by (simp add: sample_api_def)
  have nv: "\<not> truthy (property ?args ''verbose'')"
    by (simp add: property_def)
  have wf: "list_all has_notes sample_discussions"
    by (simp add: sample_discussions_def has_notes_def property_def sample_note_def)
  have au: "list_all kept_have_author sample_discussions"
    by (simp add: sample_discussions_def kept_have_author_def notes_of_def property_def
          sample_note_def unresolved_of_kind_def has_author_def)
  have n1: "count_notes (unresolved_of_kind ''DiscussionNote'') sample_discussions = 1"
    by (simp add: sample_discussions_def notes_of_def property_def sample_note_def
          unresolved_of_kind_def)
  have n2: "count_notes (unresolved_of_kind ''DiffNote'') sample_discussions = 1"
    by (simp add: sample_discussions_def notes_of_def property_def sample_note_def
          unresolved_of_kind_def)
  have pid: "truthy (property ?args ''project_id'') \<and> truthy (property ?args ''merge_request_iid'')"
    by (simp add: property_def)
  from comment_partition [OF raw nv wf, of no_filters] obtain dn fn where
    l1: "length dn = count_notes (unresolved_of_kind ''DiscussionNote'') sample_discussions" and
    l2: "length fn = count_notes (unresolved_of_kind ''DiffNote'') sample_discussions" and
    js: "list_all kept_have_author sample_discussions \<longrightarrow>
         snd (CallToolRequest_handler sample_api no_filters ''get_merge_request_comments'' ?args) =
           text_response (JSON_stringify (JObj [(''disscussionNotes'', JArr dn),
                                                (''diffNotes'', JArr fn)]))" and
    ts: "truthy (property ?args ''project_id'') \<and> truthy (property ?args ''merge_request_iid'') \<longrightarrow>
         map_option snd (call_registered sample_api no_filters ''get_merge_request_comments'' ?args) =
           Some (text_response (JSON_stringify (JObj [(''disscussionNotes'', JArr dn),
                                                      (''diffNotes'', JArr fn)])))"
    by blast
  have run: "length dn = 1 \<and> length fn = 1 \<and>
      snd (CallToolRequest_handler sample_api no_filters ''get_merge_request_comments'' ?args) =
        text_response (JSON_stringify (JObj [(''disscussionNotes'', JArr dn),
                                             (''diffNotes'', JArr fn)])) \<and>
      map_option snd (call_registered sample_api no_filters ''get_merge_request_comments'' ?args) =
        Some (text_response (JSON_stringify (JObj [(''disscussionNotes'', JArr dn),
                                                   (''diffNotes'', JArr fn)])))"
    using l1 l2 n1 n2 js ts au pid by simp
  have raw': "MergeRequestDiscussions_all sample_api (JNum 7) (JNum 3) = Inr sample_discussions"
    by (simp add: sample_api_def)
  from run show ?thesis
    by (intro conjI raw' nv wf au n1 n2 exI [of _ dn] exI [of _ fn]) simp_all
qed

subsection \<open>Argument checks\<close>

lemma required_messages:
  "contains_text ''project_id is required'' ''project_id''"
  "contains_text ''project_id is required'' ''required''"
  "contains_text ''project_id and merge_request_iid are required'' ''project_id''"
  "contains_text ''project_id and merge_request_iid are required'' ''merge_request_iid''"
  "contains_text ''project_id and merge_request_iid are required'' ''required''"
  "contains_text ''project_id and issue_iid are required'' ''project_id''"
  "contains_text ''project_id and issue_iid are required'' ''issue_iid''"
  "contains_text ''project_id and issue_iid are required'' ''required''"
  "contains_text ''project_id, merge_request_iid, and comment are required'' ''project_id''"
  "contains_text ''project_id, merge_request_iid, and comment are required'' ''merge_request_iid''"
  "contains_text ''project_id, merge_request_iid, and comment are required'' ''comment''"
  "contains_text ''project_id, merge_request_iid, and comment are required'' ''required''"
  "contains_text ''project_id, merge_request_iid, and description are required'' ''project_id''"
  "contains_text ''project_id, merge_request_iid, and description are required'' ''merge_request_iid''"
  "contains_text ''project_id, merge_request_iid, and description are required'' ''description''"
  "contains_text ''project_id, merge_request_iid, and description are required'' ''required''"
  "contains_text ''project_id, merge_request_iid, and title are required'' ''project_id''"
  "contains_text ''project_id, merge_request_iid, and title are required'' ''merge_request_iid''"
  "contains_text ''project_id, merge_request_iid, and title are required'' ''title''"
  "contains_text ''project_id, merge_request_iid, and title are required'' ''required''"
  by code_simp+

lemma diff_comment_message:
  "contains_text ''project_id, merge_request_iid, comment, base_sha, start_sha, head_sha, file_path, and line_number are required'' ''project_id''"
  "contains_text ''project_id, merge_request_iid, comment, base_sha, start_sha, head_sha, file_path, and line_number are required'' ''merge_request_iid''"
  "contains_text ''project_id, merge_request_iid, comment, base_sha, start_sha, head_sha, file_path, and line_number are required'' ''comment''"
  "contains_text ''project_id, merge_request_iid, comment, base_sha, start_sha, head_sha, file_path, and line_number are required'' ''base_sha''"
  "contains_text ''project_id, merge_request_iid, comment, base_sha, start_sha, head_sha, file_path, and line_number are required'' ''start_sha''"
  "contains_text ''project_id, merge_request_iid, comment, base_sha, start_sha, head_sha, file_path, and line_number are required'' ''head_sha''"
  "contains_text ''project_id, merge_request_iid, comment, base_sha, start_sha, head_sha, file_path, and line_number are required'' ''file_path''"
  "contains_text ''project_id, merge_request_iid, comment, base_sha, start_sha, head_sha, file_path, and line_number are required'' ''line_number''"
  "contains_text ''project_id, merge_request_iid, comment, base_sha, start_sha, head_sha, file_path, and line_number are required'' ''required''"
  by code_simp+

lemma listOpenMergeRequests_ts_rejects:
  "\<not> truthy (property args ''project_id'') \<Longrightarrow>
   listOpenMergeRequests_ts api args = ([], Inl (Error ''project_id is required''))"
  by (simp add: listOpenMergeRequests_ts_def Let_def)

lemma getMergeRequestDetails_ts_rejects:
  "\<not> truthy (property args ''project_id'') \<or> \<not> truthy (property args ''merge_request_iid'') \<Longrightarrow>
   getMergeRequestDetails_ts api args =
     ([], Inl (Error ''project_id and merge_request_iid are required''))"
  by (auto simp: getMergeRequestDetails_ts_def Let_def)

lemma getMergeRequestComments_ts_rejects:
  "\<not> truthy (property args ''project_id'') \<or> \<not> truthy (property args ''merge_request_iid'') \<Longrightarrow>
   getMergeRequestComments_ts api args =
     ([], Inl (Error ''project_id and merge_request_iid are required''))"
  by (auto simp: getMergeRequestComments_ts_def Let_def)

lemma addMergeRequestComment_ts_rejects:
  "\<not> truthy (property args ''project_id'') \<or> \<not> truthy (property args ''merge_request_iid'') \<or>
   \<not> truthy (property args ''comment'') \<Longrightarrow>
   addMergeRequestComment_ts api args =
     ([], Inl (Error ''project_id, merge_request_iid, and comment are required''))"
  by (auto simp: addMergeRequestComment_ts_def Let_def)

lemma addMergeRequestDiffComment_ts_rejects:
  "\<not> truthy (property args ''project_id'') \<or> \<not> truthy (property args ''merge_request_iid'') \<or>
   \<not> truthy (property args ''comment'') \<or> \<not> truthy (property args ''base_sha'') \<or>
   \<not> truthy (property args ''start_sha'') \<or> \<not> truthy (property args ''head_sha'') \<or>
   \<not> truthy (property args ''file_path'') \<or> \<not> truthy (property args ''line_number'') \<Longrightarrow>
   addMergeRequestDiffComment_ts api args =
     ([], Inl (Error
       ''project_id, merge_request_iid, comment, base_sha, start_sha, head_sha, file_path, and line_number are required''))"
  by (auto simp: addMergeRequestDiffComment_ts_def Let_def)

lemma getMergeRequestDiff_ts_rejects:
  "\<not> truthy (property args ''project_id'') \<or> \<not> truthy (property args ''merge_request_iid'') \<Longrightarrow>
   getMergeRequestDiff_ts api args =
     ([], Inl (Error ''project_id and merge_request_iid are required''))"
  by (auto simp: getMergeRequestDiff_ts_def Let_def)

lemma getIssueDetails_ts_rejects:
  "\<not> truthy (property args ''project_id'') \<or> \<not> truthy (property args ''issue_iid'') \<Longrightarrow>
   getIssueDetails_ts api args = ([], Inl (Error ''project_id and issue_iid are required''))"
  by (auto simp: getIssueDetails_ts_def Let_def)

lemma setMergeRequestDescription_ts_rejects:
  "\<not> truthy (property args ''project_id'') \<or> \<not> truthy (property args ''merge_request_iid'') \<or>
   \<not> truthy (property args ''description'') \<Longrightarrow>
   setMergeRequestDescription_ts api args =
     ([], Inl (Error ''project_id, merge_request_iid, and description are required''))"
  by (auto simp: setMergeRequestDescription_ts_def Let_def)

lemma setMergeRequestTitle_ts_rejects:
  "\<not> truthy (property args ''project_id'') \<or> \<not> truthy (property args ''merge_request_iid'') \<or>
   \<not> truthy (property args ''title'') \<Longrightarrow>
   setMergeRequestTitle_ts api args =
     ([], Inl (Error ''project_id, merge_request_iid, and title are required''))"
  by (auto simp: setMergeRequestTitle_ts_def Let_def)

lemma catch_format_thrown: "catch_format (calls, Inl e) = (calls, formatErrorResponse e)"
  by (simp add: catch_format_def)

lemma registrations:
  "r \<in> set registerTool_calls \<Longrightarrow>
     r = registerTool_calls ! 0 \<or> r = registerTool_calls ! 1 \<or> r = registerTool_calls ! 2 \<or>
     r = registerTool_calls ! 3 \<or> r = registerTool_calls ! 4 \<or> r = registerTool_calls ! 5 \<or>
     r = registerTool_calls ! 6 \<or> r = registerTool_calls ! 7 \<or> r = registerTool_calls ! 8 \<or>
     r = registerTool_calls ! 9"
proof -
  have len: "length registerTool_calls = 10"
    by (simp add: registerTool_calls_def)
  assume "r \<in> set registerTool_calls"
  then obtain i where "i < 10" "r = registerTool_calls ! i"
    unfolding in_set_conv_nth len by blast
  moreover have "i < 10 \<Longrightarrow> i \<in> {0, 1, 2, 3, 4, 5, 6, 7, 8, 9}" by auto
  ultimately show ?thesis by auto
qed

lemma ts_rejects:
  assumes r: "r \<in> set registerTool_calls" and f: "f \<in> set (required_fields r)"
  shows "\<exists>msg. contains_text msg f \<and> contains_text msg ''required'' \<and>
           (\<forall>api env args. \<not> truthy (property args f) \<longrightarrow>
              callback r api env args = ([], formatErrorResponse (Error msg)))"
proof -
  note defs = registerTool_calls_def required_fields_def
  from registrations [OF r] consider
      "r = registerTool_calls ! 0" | "r = registerTool_calls ! 1" | "r = registerTool_calls ! 2"
    | "r = registerTool_calls ! 3" | "r = registerTool_calls ! 4" | "r = registerTool_calls ! 5"
    | "r = registerTool_calls ! 6" | "r = registerTool_calls ! 7" | "r = registerTool_calls ! 8"
    | "r = registerTool_calls ! 9"
    by blast
  then show ?thesis
  proof cases
    case 1
    with f show ?thesis by (simp add: defs)
  next
    case 2
    with f have "f = ''project_id''" by (simp add: defs)
    with 2 show ?thesis
      by (intro exI [of _ "''project_id is required''"])
         (simp add: defs listOpenMergeRequests_ts_rejects catch_format_thrown required_messages diff_comment_message)
  next
    case 3
    with f have "f = ''project_id'' \<or> f = ''merge_request_iid''" by (simp add: defs)
    with 3 show ?thesis
      by (intro exI [of _ "''project_id and merge_request_iid are required''"])
         (auto simp add: defs getMergeRequestDetails_ts_rejects catch_format_thrown required_messages diff_comment_message)
  next
    case 4
    with f have "f = ''project_id'' \<or> f = ''merge_request_iid''" by (simp add: defs)
    with 4 show ?thesis
      by (intro exI [of _ "''project_id and merge_request_iid are required''"])
         (auto simp add: defs getMergeRequestComments_ts_rejects catch_format_thrown required_messages diff_comment_message)
  next
    case 5
    with f have "f = ''project_id'' \<or> f = ''merge_request_iid'' \<or> f = ''comment''"
      by (simp add: defs)
    with 5 show ?thesis
      by (intro exI [of _ "''project_id, merge_request_iid, and comment are required''"])
         (auto simp add: defs addMergeRequestComment_ts_rejects catch_format_thrown required_messages diff_comment_message)
  next
    case 6
    with f have "f = ''project_id'' \<or> f = ''merge_request_iid'' \<or> f = ''comment'' \<or>
        f = ''base_sha'' \<or> f = ''start_sha'' \<or> f = ''head_sha'' \<or> f = ''file_path'' \<or>
        f = ''line_number''"
      by (simp add: defs)
    with 6 show ?thesis
      by (intro exI [of _ "''project_id, merge_request_iid, comment, base_sha, start_sha, head_sha, file_path, and line_number are required''"])
         (auto simp add: defs addMergeRequestDiffComment_ts_rejects catch_format_thrown required_messages diff_comment_message)
  next
    case 7
    with f have "f = ''project_id'' \<or> f = ''merge_request_iid''" by (simp add: defs)
    with 7 show ?thesis
      by (intro exI [of _ "''project_id and merge_request_iid are required''"])
         (auto simp add: defs getMergeRequestDiff_ts_rejects catch_format_thrown required_messages diff_comment_message)
  next
    case 8
    with f have "f = ''project_id'' \<or> f = ''issue_iid''" by (simp add: defs)
    with 8 show ?thesis
      by (intro exI [of _ "''project_id and issue_iid are required''"])
         (auto simp add: defs getIssueDetails_ts_rejects catch_format_thrown required_messages diff_comment_message)
  next
    case 9
    with f have "f = ''project_id'' \<or> f = ''merge_request_iid'' \<or> f = ''description''"
      by (simp add: defs)
    with 9 show ?thesis
      by (intro exI [of _ "''project_id, merge_request_iid, and description are required''"])
         (auto simp add: defs setMergeRequestDescription_ts_rejects catch_format_thrown required_messages diff_comment_message)
  next
    case 10
    with f have "f = ''project_id'' \<or> f = ''merge_request_iid'' \<or> f = ''title''"
      by (simp add: defs)
    with 10 show ?thesis
      by (intro exI [of _ "''project_id, merge_request_iid, and title are required''"])
         (auto simp add: defs setMergeRequestTitle_ts_rejects catch_format_thrown required_messages diff_comment_message)
  qed
qed

lemma starts_with_append: "starts_with s p \<Longrightarrow> starts_with (s @ t) p"
  by (induction s p rule: starts_with.induct) (simp_all add: starts_with.simps)

lemma contains_text_empty: "contains_text s []"
  by (cases s) (simp_all add: contains_text.simps starts_with.simps)

lemma contains_text_append_right: "contains_text s p \<Longrightarrow> contains_text (s @ t) p"
proof (induction s)
  case Nil
  then show ?case by (simp add: contains_text.simps contains_text_empty)
next
  case (Cons c cs)
  then show ?case
    using starts_with_append [of "c # cs" p t] by (auto simp: contains_text.simps)
qed

lemma contains_text_append_left: "contains_text s p \<Longrightarrow> contains_text (a @ s) p"
  by (induction a) (simp_all add: contains_text.simps)

lemma formatErrorResponse_Error:
  "formatErrorResponse (Error msg) = failure_result (''Error: '' @ msg @ '' - No additional details'')"
  by (simp add: formatErrorResponse_def Error_def failure_result_def or_else_def cause_description_def)

lemma contains_text_failure:
  "contains_text msg f \<Longrightarrow> contains_text (''Error: '' @ msg @ '' - No additional details'') f"
  by (intro contains_text_append_left contains_text_append_right)

lemma property_absent: "map_of args f = None \<Longrightarrow> property args f = JUndefined"
  by (simp add: property_def)

lemma property_present: "map_of args f = Some v \<Longrightarrow> property args f = v"
  by (simp add: property_def)

lemma property_removed: "property (filter (\<lambda>kv. fst kv \<noteq> f) args) f = JUndefined"
proof -
  have "map_of (filter (\<lambda>kv. fst kv \<noteq> f) args) f = None"
    by (induction args) auto
  then show ?thesis by (rule property_absent)
qed

lemma js_one_call:
  "nm \<in> set (map name tools) \<Longrightarrow> length (fst (CallToolRequest_handler api env nm args)) = 1"
  by (auto simp: tools_def handler_eqs catch_format_def getProjects_def listOpenMergeRequests_js_def
        getMergeRequestDetails_js_def getMergeRequestComments_js_def addMergeRequestComment_js_def
        addMergeRequestDiffComment_js_def getMergeRequestDiff_js_def getIssueDetails_js_def
        setMergeRequestDescription_js_def setMergeRequestTitle_js_def Let_def
        split: prod.splits sum.splits)

text \<open>
  Claim C1, as the code has it. In the TypeScript variant, for every registration, every
  required field of its schema and every argument mapping from which that field is
  absent, the callback returns a failure result whose text contains the name of the
  field, and it makes no provider call. The JavaScript variant checks nothing: for every
  registered name its handler makes its one provider call whatever the arguments are.
\<close>

theorem missing_argument_rejected:
  "(r \<in> set registerTool_calls \<and> f \<in> set (required_fields r) \<and> map_of args f = None \<longrightarrow>
      (\<exists>t. callback r api env args = ([], failure_result t) \<and> contains_text t f)) \<and>
   (nm \<in> set (map name tools) \<longrightarrow>
      length (fst (CallToolRequest_handler api env nm args)) = 1)"
proof (intro conjI impI)
  assume a: "r \<in> set registerTool_calls \<and> f \<in> set (required_fields r) \<and> map_of args f = None"
  then obtain msg where m: "contains_text msg f" and
    c: "\<forall>api env args. \<not> truthy (property args f) \<longrightarrow>
              callback r api env args = ([], formatErrorResponse (Error msg))"
    using ts_rejects [of r f] by blast
  from a have "\<not> truthy (property args f)" by (simp add: property_absent)
  with c have "callback r api env args =
      ([], failure_result (''Error: '' @ msg @ '' - No additional details''))"
    by (simp add: formatErrorResponse_Error)
  with m show "\<exists>t. callback r api env args = ([], failure_result t) \<and> contains_text t f"
    using contains_text_failure by blast
next
  assume "nm \<in> set (map name tools)"
  then show "length (fst (CallToolRequest_handler api env nm args)) = 1"
    by (rule js_one_call)
qed

theorem missing_argument_rejected_witness:
  "registerTool_calls ! 2 \<in> set registerTool_calls \<and>
   tool_name (registerTool_calls ! 2) = ''get_merge_request_details'' \<and>
   ''merge_request_iid'' \<in> set (required_fields (registerTool_calls ! 2)) \<and>
   map_of [(''project_id'', JNum 7)] ''merge_request_iid'' = None \<and>
   (\<exists>t. callback (registerTool_calls ! 2) sample_api no_filters [(''project_id'', JNum 7)] =
          ([], failure_result t) \<and> contains_text t ''merge_request_iid'') \<and>
   ''get_merge_request_details'' \<in> set (map name tools) \<and>
   length (fst (CallToolRequest_handler sample_api no_filters ''get_merge_request_details''
                  [(''project_id'', JNum 7)])) = 1"
proof -
  have r: "registerTool_calls ! 2 \<in> set registerTool_calls"
    by (simp add: registerTool_calls_def)
  have n: "tool_name (registerTool_calls ! 2) = ''get_merge_request_details''"
    by (simp add: registerTool_calls_def)
  have f: "''merge_request_iid'' \<in> set (required_fields (registerTool_calls ! 2))"
    by (simp add: registerTool_calls_def required_fields_def)
  have a: "map_of [(''project_id'', JNum 7)] ''merge_request_iid'' = None"
    by simp
  have t: "''get_merge_request_details'' \<in> set (map name tools)"
    by (simp add: tools_def)
  from missing_argument_rejected [of "registerTool_calls ! 2" "''merge_request_iid''"
         "[(''project_id'', JNum 7)]" sample_api no_filters "''get_merge_request_details''"]
       r n f a t
  show ?thesis by blast
qed

text \<open>
  The claim as it was stated fails on the JavaScript variant: \<^verbatim>\<open>get_merge_request_details\<close>
  without its required \<^verbatim>\<open>merge_request_iid\<close> calls the provider with \<^verbatim>\<open>undefined\<close>. When
  the provider answers, the result is not flagged as a failure; when the provider
  throws, the failure text is the provider's and does not name the field.
\<close>

theorem missing_argument_reaches_provider:
  "name (tools ! 2) = ''get_merge_request_details'' \<and>
   ''merge_request_iid'' \<in> set (required (schema (tools ! 2))) \<and>
   map_of [(''project_id'', JNum 7)] ''merge_request_iid'' = None \<and>
   fst (CallToolRequest_handler sample_api no_filters ''get_merge_request_details''
          [(''project_id'', JNum 7)]) = [Call_MergeRequests_show (JNum 7) JUndefined] \<and>
   isError (snd (CallToolRequest_handler sample_api no_filters ''get_merge_request_details''
                   [(''project_id'', JNum 7)])) = None \<and>
   CallToolRequest_handler failing_api no_filters ''get_merge_request_details''
     [(''project_id'', JNum 7)] =
     ([Call_MergeRequests_show (JNum 7) JUndefined],
      failure_result ''Error: Not Found - 404 Project Not Found'') \<and>
   \<not> contains_text ''Error: Not Found - 404 Project Not Found'' ''merge_request_iid''"
proof -
  have "\<not> contains_text ''Error: Not Found - 404 Project Not Found'' ''merge_request_iid''"
    by code_simp
  then show ?thesis
    by (simp add: tools_def handler_eqs catch_format_def getMergeRequestDetails_js_def Let_def
          property_def sample_api_def failing_api_def bindE_def text_response_def
          formatErrorResponse_def not_found_def failure_result_def or_else_def
          cause_description_def)
qed

text \<open>
  Claim C10. In the TypeScript variant a required argument that is present but falsy
  (the number \<open>0\<close> and the empty string are) is treated as a missing one: the callback
  returns the same translated \<^verbatim>\<open>... required\<close> error as for the mapping without that
  argument, and no provider call is made.
\<close>

theorem falsy_argument_treated_as_missing:
  assumes "r \<in> set registerTool_calls" and "f \<in> set (required_fields r)"
    and "map_of args f = Some v" and "\<not> truthy v"
  shows "\<exists>msg. contains_text msg ''required'' \<and> contains_text msg f \<and>
           callback r api env args = ([], formatErrorResponse (Error msg)) \<and>
           callback r api env (filter (\<lambda>kv. fst kv \<noteq> f) args) =
             ([], formatErrorResponse (Error msg))"
proof -
  from ts_rejects [OF assms(1,2)] obtain msg where
    m: "contains_text msg f" "contains_text msg ''required''" and
    c: "\<And>api env args. \<not> truthy (property args f) \<Longrightarrow>
              callback r api env args = ([], formatErrorResponse (Error msg))"
    by blast
  have "\<not> truthy (property args f)"
    using assms(3,4) by (simp add: property_present)
  moreover have "\<not> truthy (property (filter (\<lambda>kv. fst kv \<noteq> f) args) f)"
    by (simp add: property_removed)
  ultimately show ?thesis
    using m c by blast
qed

theorem falsy_argument_treated_as_missing_witness:
  "\<not> truthy (JNum 0) \<and> \<not> truthy (JStr []) \<and>
   (\<exists>msg. contains_text msg ''required'' \<and>
      callback (registerTool_calls ! 2) sample_api no_filters
        [(''project_id'', JNum 0), (''merge_request_iid'', JNum 3)] =
        ([], formatErrorResponse (Error msg)) \<and>
      callback (registerTool_calls ! 2) sample_api no_filters [(''merge_request_iid'', JNum 3)] =
        ([], formatErrorResponse (Error msg))) \<and>
   (\<exists>msg. contains_text msg ''required'' \<and>
      callback (registerTool_calls ! 4) sample_api no_filters
        [(''project_id'', JNum 7), (''merge_request_iid'', JNum 3), (''comment'', JStr [])] =
        ([], formatErrorResponse (Error msg)) \<and>
      callback (registerTool_calls ! 4) sample_api no_filters
        [(''project_id'', JNum 7), (''merge_request_iid'', JNum 3)] =
        ([], formatErrorResponse (Error msg)))"
proof -
  have r2: "registerTool_calls ! 2 \<in> set registerTool_calls"
    and r4: "registerTool_calls ! 4 \<in> set registerTool_calls"
    by (simp_all add: registerTool_calls_def)
  have f2: "''project_id'' \<in> set (required_fields (registerTool_calls ! 2))"
    and f4: "''comment'' \<in> set (required_fields (registerTool_calls ! 4))"
    by (simp_all add: registerTool_calls_def required_fields_def)
  have a2: "map_of [(''project_id'', JNum 0), (''merge_request_iid'', JNum 3)] ''project_id'' =
      Some (JNum 0)"
    by simp
  have a4: "map_of [(''project_id'', JNum 7), (''merge_request_iid'', JNum 3), (''comment'', JStr [])]
      ''comment'' = Some (JStr [])"
    by simp
  have z: "\<not> truthy (JNum 0)" and e: "\<not> truthy (JStr [])"
    by simp_all
  from falsy_argument_treated_as_missing [OF r2 f2 a2 z, of sample_api no_filters]
       falsy_argument_treated_as_missing [OF r4 f4 a4 e, of sample_api no_filters]
  show ?thesis
    by (simp only: z e filter.simps fst_conv list.inject) auto
qed

subsection \<open>The shape of every result\<close>

lemma returns_text_bindE:
  "(\<And>x. m = Inr x \<Longrightarrow> returns_text (calls, f x)) \<Longrightarrow> returns_text (calls, bindE m f)"
  by (cases m) (simp_all add: returns_text_def bindE_def)

lemma returns_text_response: "returns_text (calls, Inr (text_response t))"
  by (simp add: returns_text_def text_response_def)

lemma returns_text_thrown: "returns_text (calls, Inl e)"
  by (simp add: returns_text_def)

lemmas returns_text_intros = returns_text_bindE returns_text_response returns_text_thrown

lemma handlers_return_text:
  "returns_text (getProjects api env args)"
  "returns_text (listOpenMergeRequests_js api args)"
  "returns_text (getMergeRequestDetails_js api args)"
  "returns_text (getMergeRequestComments_js api args)"
  "returns_text (addMergeRequestComment_js api args)"
  "returns_text (addMergeRequestDiffComment_js api args)"
  "returns_text (getMergeRequestDiff_js api args)"
  "returns_text (getIssueDetails_js api args)"
  "returns_text (setMergeRequestDescription_js api args)"
  "returns_text (setMergeRequestTitle_js api args)"
  "returns_text (listOpenMergeRequests_ts api args)"
  "returns_text (getMergeRequestDetails_ts api args)"
  "returns_text (getMergeRequestComments_ts api args)"
  "returns_text (addMergeRequestComment_ts api args)"
  "returns_text (addMergeRequestDiffComment_ts api args)"
  "returns_text (getMergeRequestDiff_ts api args)"
  "returns_text (getIssueDetails_ts api args)"
  "returns_text (setMergeRequestDescription_ts api args)"
  "returns_text (setMergeRequestTitle_ts api args)"
  unfolding getProjects_def listOpenMergeRequests_js_def
        getMergeRequestDetails_js_def getMergeRequestComments_js_def addMergeRequestComment_js_def
        addMergeRequestDiffComment_js_def getMergeRequestDiff_js_def getIssueDetails_js_def
        setMergeRequestDescription_js_def setMergeRequestTitle_js_def 
        listOpenMergeRequests_ts_def
        getMergeRequestDetails_ts_def getMergeRequestComments_ts_def addMergeRequestComment_ts_def
        addMergeRequestDiffComment_ts_def getMergeRequestDiff_ts_def getIssueDetails_ts_def
        setMergeRequestDescription_ts_def setMergeRequestTitle_ts_def Let_def
  by (auto intro!: returns_text_intros)

lemma try_returns_text: "returns_text (CallToolRequest_try api env nm args)"
  by (simp add: CallToolRequest_try_def handlers_return_text returns_text_thrown)

lemma is_text_result_simps:
  "is_text_result (text_response t)" "is_text_result (formatErrorResponse e)"
  by (simp_all add: is_text_result_def text_response_def formatErrorResponse_def)

lemma catch_format_shape:
  assumes "returns_text out"
  shows "is_text_result (snd (catch_format out))"
proof (cases out)
  case (Pair calls res)
  show ?thesis
  proof (cases res)
    case (Inl e)
    with Pair show ?thesis by (simp add: catch_format_def is_text_result_simps)
  next
    case (Inr r)
    with Pair assms have "r = text_response (item_text (hd (content r)))"
      by (simp add: returns_text_def)
    then have "is_text_result r"
      using is_text_result_simps(1) [of "item_text (hd (content r))"] by simp
    with Pair Inr show ?thesis by (simp add: catch_format_def)
  qed
qed

text \<open>
  Claim C2. For every name and every argument mapping the call handler returns a result
  of the shape \<^verbatim>\<open>{content: [{type: "text", text}], isError?}\<close>, and so does every callback
  that the TypeScript variant registers. Whatever the body of the \<^verbatim>\<open>try\<close> block throws is
  what \<^verbatim>\<open>formatErrorResponse\<close> is applied to, once, and what it returns is returned
  unchanged; the handler is a function into results, so no exception leaves it. Tool by
  tool, in both variants: when the provider call of a tool throws \<open>e\<close>, the result of the
  tool is \<^verbatim>\<open>formatErrorResponse(e)\<close>, after that one call; when the shaping of the comments
  throws, the result is the translation of that exception; an unknown name gives the
  translation of the unknown-tool error; and in the TypeScript variant a required
  argument that is not truthy gives the translation of the handler's \<^verbatim>\<open>required\<close> error,
  with no provider call.
\<close>

theorem dispatcher_result_shape:
  "is_text_result (snd (CallToolRequest_handler api env nm args)) \<and>
   (\<forall>calls e. CallToolRequest_try api env nm args = (calls, Inl e) \<longrightarrow>
      CallToolRequest_handler api env nm args = (calls, formatErrorResponse e)) \<and>
   (\<forall>calls result. CallToolRequest_try api env nm args = (calls, Inr result) \<longrightarrow>
      CallToolRequest_handler api env nm args = (calls, result)) \<and>
   (\<forall>r \<in> set registerTool_calls. is_text_result (snd (callback r api env args))) \<and>
   (Projects_all api ((''membership'', JBool True) # projectFilter env) = Inl e \<longrightarrow>
      CallToolRequest_handler api env ''get_projects'' args =
        ([Call_Projects_all ((''membership'', JBool True) # projectFilter env)], formatErrorResponse e)) \<and>
   (MergeRequests_all api [(''projectId'', property args ''project_id''), (''state'', JStr ''opened'')] = Inl e \<longrightarrow>
      CallToolRequest_handler api env ''list_open_merge_requests'' args =
        ([Call_MergeRequests_all [(''projectId'', property args ''project_id''), (''state'', JStr ''opened'')]], formatErrorResponse e)) \<and>
   (MergeRequests_show api (property args ''project_id'') (property args ''merge_request_iid'') = Inl e \<longrightarrow>
      CallToolRequest_handler api env ''get_merge_request_details'' args =
        ([Call_MergeRequests_show (property args ''project_id'') (property args ''merge_request_iid'')], formatErrorResponse e)) \<and>
   (MergeRequestDiscussions_all api (property args ''project_id'') (property args ''merge_request_iid'') = Inl e \<longrightarrow>
      CallToolRequest_handler api env ''get_merge_request_comments'' args =
        ([Call_MergeRequestDiscussions_all (property args ''project_id'') (property args ''merge_request_iid'')], formatErrorResponse e)) \<and>
   (MergeRequestDiscussions_create api (property args ''project_id'') (property args ''merge_request_iid'') (property args ''comment'') None = Inl e \<longrightarrow>
      CallToolRequest_handler api env ''add_merge_request_comment'' args =
        ([Call_MergeRequestDiscussions_create (property args ''project_id'') (property args ''merge_request_iid'') (property args ''comment'') None], formatErrorResponse e)) \<and>
   (MergeRequestDiscussions_create api (property args ''project_id'') (property args ''merge_request_iid'') (property args ''comment'') (Some [(''position'', JObj (position_js args))]) = Inl e \<longrightarrow>
      CallToolRequest_handler api env ''add_merge_request_diff_comment'' args =
        ([Call_MergeRequestDiscussions_create (property args ''project_id'') (property args ''merge_request_iid'') (property args ''comment'') (Some [(''position'', JObj (position_js args))])], formatErrorResponse e)) \<and>
   (MergeRequests_allDiffs api (property args ''project_id'') (property args ''merge_request_iid'') = Inl e \<longrightarrow>
      CallToolRequest_handler api env ''get_merge_request_diff'' args =
        ([Call_MergeRequests_allDiffs (property args ''project_id'') (property args ''merge_request_iid'')], formatErrorResponse e)) \<and>
   (Issues_show api (property args ''issue_iid'') [(''projectId'', property args ''project_id'')] = Inl e \<longrightarrow>
      CallToolRequest_handler api env ''get_issue_details'' args =
        ([Call_Issues_show (property args ''issue_iid'') [(''projectId'', property args ''project_id'')]], formatErrorResponse e)) \<and>
   (MergeRequests_edit api (property args ''project_id'') (property args ''merge_request_iid'') [(''description'', property args ''description'')] = Inl e \<longrightarrow>
      CallToolRequest_handler api env ''set_merge_request_description'' args =
        ([Call_MergeRequests_edit (property args ''project_id'') (property args ''merge_request_iid'') [(''description'', property args ''description'')]], formatErrorResponse e)) \<and>
   (MergeRequests_edit api (property args ''project_id'') (property args ''merge_request_iid'') [(''title'', property args ''title'')] = Inl e \<longrightarrow>
      CallToolRequest_handler api env ''set_merge_request_title'' args =
        ([Call_MergeRequests_edit (property args ''project_id'') (property args ''merge_request_iid'') [(''title'', property args ''title'')]], formatErrorResponse e)) \<and>
   (MergeRequestDiscussions_all api (property args ''project_id'') (property args ''merge_request_iid'') = Inr discussions \<and> \<not> truthy (property args ''verbose'') \<and>
    FilteredComments author_name_js discussions = Inl e \<longrightarrow>
      CallToolRequest_handler api env ''get_merge_request_comments'' args =
        ([Call_MergeRequestDiscussions_all (property args ''project_id'') (property args ''merge_request_iid'')], formatErrorResponse e)) \<and>
   (nm \<notin> set (map name tools) \<longrightarrow>
      CallToolRequest_handler api env nm args =
        ([], formatErrorResponse (Error (''Unknown tool: '' @ nm)))) \<and>
   (Projects_all api ((''membership'', JBool True) # projectFilter env) = Inl e \<longrightarrow>
      call_registered api env ''get_projects'' args =
        Some ([Call_Projects_all ((''membership'', JBool True) # projectFilter env)], formatErrorResponse e)) \<and>
   (\<not> (truthy (property args ''project_id'')) \<longrightarrow>
      call_registered api env ''list_open_merge_requests'' args =
        Some ([], formatErrorResponse (Error
          ''project_id is required''))) \<and>
   (truthy (property args ''project_id'') \<and>
    MergeRequests_all api [(''projectId'', property args ''project_id''), (''state'', JStr ''opened'')] = Inl e \<longrightarrow>
      call_registered api env ''list_open_merge_requests'' args =
        Some ([Call_MergeRequests_all [(''projectId'', property args ''project_id''), (''state'', JStr ''opened'')]], formatErrorResponse e)) \<and>
   (\<not> (truthy (property args ''project_id'') \<and> truthy (property args ''merge_request_iid'')) \<longrightarrow>
      call_registered api env ''get_merge_request_details'' args =
        Some ([], formatErrorResponse (Error
          ''project_id and merge_request_iid are required''))) \<and>
   (truthy (property args ''project_id'') \<and> truthy (property args ''merge_request_iid'') \<and>
    MergeRequests_show api (property args ''project_id'') (property args ''merge_request_iid'') = Inl e \<longrightarrow>
      call_registered api env ''get_merge_request_details'' args =
        Some ([Call_MergeRequests_show (property args ''project_id'') (property args ''merge_request_iid'')], formatErrorResponse e)) \<and>
   (\<not> (truthy (property args ''project_id'') \<and> truthy (property args ''merge_request_iid'')) \<longrightarrow>
      call_registered api env ''get_merge_request_comments'' args =
        Some ([], formatErrorResponse (Error
          ''project_id and merge_request_iid are required''))) \<and>
   (truthy (property args ''project_id'') \<and> truthy (property args ''merge_request_iid'') \<and>
    MergeRequestDiscussions_all api (property args ''project_id'') (property args ''merge_request_iid'') = Inl e \<longrightarrow>
      call_registered api env ''get_merge_request_comments'' args =
        Some ([Call_MergeRequestDiscussions_all (property args ''project_id'') (property args ''merge_request_iid'')], formatErrorResponse e)) \<and>
   (\<not> (truthy (property args ''project_id'') \<and> truthy (property args ''merge_request_iid'') \<and> truthy (property args ''comment'')) \<longrightarrow>
      call_registered api env ''add_merge_request_comment'' args =
        Some ([], formatErrorResponse (Error
          ''project_id, merge_request_iid, and comment are required''))) \<and>
   (truthy (property args ''project_id'') \<and> truthy (property args ''merge_request_iid'') \<and> truthy (property args ''comment'') \<and>
    MergeRequestDiscussions_create api (property args ''project_id'') (property args ''merge_request_iid'') (property args ''comment'') None = Inl e \<longrightarrow>
      call_registered api env ''add_merge_request_comment'' args =
        Some ([Call_MergeRequestDiscussions_create (property args ''project_id'') (property args ''merge_request_iid'') (property args ''comment'') None], formatErrorResponse e)) \<and>
   (\<not> (truthy (property args ''project_id'') \<and> truthy (property args ''merge_request_iid'') \<and> truthy (property args ''comment'') \<and> truthy (property args ''base_sha'') \<and> truthy (property args ''start_sha'') \<and> truthy (property args ''head_sha'') \<and> truthy (property args ''file_path'') \<and> truthy (property args ''line_number'')) \<longrightarrow>
      call_registered api env ''add_merge_request_diff_comment'' args =
        Some ([], formatErrorResponse (Error
          ''project_id, merge_request_iid, comment, base_sha, start_sha, head_sha, file_path, and line_number are required''))) \<and>
   (truthy (property args ''project_id'') \<and> truthy (property args ''merge_request_iid'') \<and> truthy (property args ''comment'') \<and> truthy (property args ''base_sha'') \<and> truthy (property args ''start_sha'') \<and> truthy (property args ''head_sha'') \<and> truthy (property args ''file_path'') \<and> truthy (property args ''line_number'') \<and>
    MergeRequestDiscussions_create api (property args ''project_id'') (property args ''merge_request_iid'') (property args ''comment'') (Some [(''position'', JObj (position_ts args))]) = Inl e \<longrightarrow>
      call_registered api env ''add_merge_request_diff_comment'' args =
        Some ([Call_MergeRequestDiscussions_create (property args ''project_id'') (property args ''merge_request_iid'') (property args ''comment'') (Some [(''position'', JObj (position_ts args))])], formatErrorResponse e)) \<and>
   (\<not> (truthy (property args ''project_id'') \<and> truthy (property args ''merge_request_iid'')) \<longrightarrow>
      call_registered api env ''get_merge_request_diff'' args =
        Some ([], formatErrorResponse (Error
          ''project_id and merge_request_iid are required''))) \<and>
   (truthy (property args ''project_id'') \<and> truthy (property args ''merge_request_iid'') \<and>
    MergeRequests_allDiffs api (property args ''project_id'') (property args ''merge_request_iid'') = Inl e \<longrightarrow>
      call_registered api env ''get_merge_request_diff'' args =
        Some ([Call_MergeRequests_allDiffs (property args ''project_id'') (property args ''merge_request_iid'')], formatErrorResponse e)) \<and>
   (\<not> (truthy (property args ''project_id'') \<and> truthy (property args ''issue_iid'')) \<longrightarrow>
      call_registered api env ''get_issue_details'' args =
        Some ([], formatErrorResponse (Error
          ''project_id and issue_iid are required''))) \<and>
   (truthy (property args ''project_id'') \<and> truthy (property args ''issue_iid'') \<and>
    Issues_show api (property args ''issue_iid'') [(''projectId'', property args ''project_id'')] = Inl e \<longrightarrow>
      call_registered api env ''get_issue_details'' args =
        Some ([Call_Issues_show (property args ''issue_iid'') [(''projectId'', property args ''project_id'')]], formatErrorResponse e)) \<and>
   (\<not> (truthy (property args ''project_id'') \<and> truthy (property args ''merge_request_iid'') \<and> truthy (property args ''description'')) \<longrightarrow>
      call_registered api env ''set_merge_request_description'' args =
        Some ([], formatErrorResponse (Error
          ''project_id, merge_request_iid, and description are required''))) \<and>
   (truthy (property args ''project_id'') \<and> truthy (property args ''merge_request_iid'') \<and> truthy (property args ''description'') \<and>
    MergeRequests_edit api (property args ''project_id'') (property args ''merge_request_iid'') [(''description'', property args ''description'')] = Inl e \<longrightarrow>
      call_registered api env ''set_merge_request_description'' args =
        Some ([Call_MergeRequests_edit (property args ''project_id'') (property args ''merge_request_iid'') [(''description'', property args ''description'')]], formatErrorResponse e)) \<and>
   (\<not> (truthy (property args ''project_id'') \<and> truthy (property args ''merge_request_iid'') \<and> truthy (property args ''title'')) \<longrightarrow>
      call_registered api env ''set_merge_request_title'' args =
        Some ([], formatErrorResponse (Error
          ''project_id, merge_request_iid, and title are required''))) \<and>
   (truthy (property args ''project_id'') \<and> truthy (property args ''merge_request_iid'') \<and> truthy (property args ''title'') \<and>
    MergeRequests_edit api (property args ''project_id'') (property args ''merge_request_iid'') [(''title'', property args ''title'')] = Inl e \<longrightarrow>
      call_registered api env ''set_merge_request_title'' args =
        Some ([Call_MergeRequests_edit (property args ''project_id'') (property args ''merge_request_iid'') [(''title'', property args ''title'')]], formatErrorResponse e)) \<and>
   (truthy (property args ''project_id'') \<and> truthy (property args ''merge_request_iid'') \<and>
    MergeRequestDiscussions_all api (property args ''project_id'') (property args ''merge_request_iid'') = Inr discussions \<and> \<not> truthy (property args ''verbose'') \<and>
    FilteredComments author_name_ts discussions = Inl e \<longrightarrow>
      call_registered api env ''get_merge_request_comments'' args =
        Some ([Call_MergeRequestDiscussions_all (property args ''project_id'') (property args ''merge_request_iid'')], formatErrorResponse e))"
proof (intro conjI)
  show "is_text_result (snd (CallToolRequest_handler api env nm args))"
    unfolding CallToolRequest_handler_def by (rule catch_format_shape) (rule try_returns_text)
  show "\<forall>calls e. CallToolRequest_try api env nm args = (calls, Inl e) \<longrightarrow>
      CallToolRequest_handler api env nm args = (calls, formatErrorResponse e)"
    by (simp add: CallToolRequest_handler_def catch_format_def)
  show "\<forall>calls result. CallToolRequest_try api env nm args = (calls, Inr result) \<longrightarrow>
      CallToolRequest_handler api env nm args = (calls, result)"
    by (simp add: CallToolRequest_handler_def catch_format_def)
  show "\<forall>r \<in> set registerTool_calls. is_text_result (snd (callback r api env args))"
    by (simp add: registerTool_calls_def catch_format_shape handlers_return_text)
  show "nm \<notin> set (map name tools) \<longrightarrow>
      CallToolRequest_handler api env nm args =
        ([], formatErrorResponse (Error (''Unknown tool: '' @ nm)))"
    by (simp add: tools_def CallToolRequest_handler_def CallToolRequest_try_def catch_format_def)
qed (simp_all add: handler_eqs call_registered_eqs catch_format_def bindE_def Let_def
       with_default_def getProjects_def
       listOpenMergeRequests_js_def getMergeRequestDetails_js_def getMergeRequestComments_js_def
       addMergeRequestComment_js_def addMergeRequestDiffComment_js_def getMergeRequestDiff_js_def
       getIssueDetails_js_def setMergeRequestDescription_js_def setMergeRequestTitle_js_def
       listOpenMergeRequests_ts_def getMergeRequestDetails_ts_def getMergeRequestComments_ts_def
       addMergeRequestComment_ts_def addMergeRequestDiffComment_ts_def getMergeRequestDiff_ts_def
       getIssueDetails_ts_def setMergeRequestDescription_ts_def setMergeRequestTitle_ts_def)

theorem dispatcher_result_shape_witness:
  "CallToolRequest_try failing_api no_filters ''get_merge_request_details''
     [(''project_id'', JNum 7), (''merge_request_iid'', JNum 3)] =
     ([Call_MergeRequests_show (JNum 7) (JNum 3)], Inl not_found) \<and>
   CallToolRequest_handler failing_api no_filters ''get_merge_request_details''
     [(''project_id'', JNum 7), (''merge_request_iid'', JNum 3)] =
     ([Call_MergeRequests_show (JNum 7) (JNum 3)],
      failure_result ''Error: Not Found - 404 Project Not Found'') \<and>
   is_text_result (failure_result ''Error: Not Found - 404 Project Not Found'') \<and>
   registerTool_calls ! 2 \<in> set registerTool_calls \<and>
   is_text_result (snd (callback (registerTool_calls ! 2) failing_api no_filters
     [(''project_id'', JNum 7), (''merge_request_iid'', JNum 3)])) \<and>
   MergeRequestDiscussions_create failing_api (JNum 7) (JNum 3) (JStr ''nit'') None = Inl not_found \<and>
   CallToolRequest_handler failing_api no_filters ''add_merge_request_comment''
     [(''project_id'', JNum 7), (''merge_request_iid'', JNum 3), (''comment'', JStr ''nit'')] =
     ([Call_MergeRequestDiscussions_create (JNum 7) (JNum 3) (JStr ''nit'') None],
      failure_result ''Error: Not Found - 404 Project Not Found'') \<and>
   call_registered failing_api no_filters ''add_merge_request_comment''
     [(''project_id'', JNum 7), (''merge_request_iid'', JNum 3), (''comment'', JStr ''nit'')] =
     Some ([Call_MergeRequestDiscussions_create (JNum 7) (JNum 3) (JStr ''nit'') None],
           failure_result ''Error: Not Found - 404 Project Not Found'') \<and>
   \<not> truthy (property [(''project_id'', JNum 7), (''merge_request_iid'', JNum 3)] ''comment'') \<and>
   call_registered failing_api no_filters ''add_merge_request_comment''
     [(''project_id'', JNum 7), (''merge_request_iid'', JNum 3)] =
     Some ([], failure_result
       ''Error: project_id, merge_request_iid, and comment are required - No additional details'') \<and>
   FilteredComments author_name_js [[(''id'', JStr ''d1'')]] =
     Inl (TypeError_read JUndefined ''resolved'') \<and>
   CallToolRequest_handler
     (sample_api\<lparr>MergeRequestDiscussions_all := (\<lambda>project_id iid. Inr [[(''id'', JStr ''d1'')]])\<rparr>)
     no_filters ''get_merge_request_comments''
     [(''project_id'', JNum 7), (''merge_request_iid'', JNum 3)] =
     ([Call_MergeRequestDiscussions_all (JNum 7) (JNum 3)],
      failure_result
        ''Error: Cannot read properties of undefined (reading 'resolved') - No additional details'')"
proof -
  let ?args = "[(''project_id'', JNum 7), (''merge_request_iid'', JNum 3)]"
  let ?cargs = "[(''project_id'', JNum 7), (''merge_request_iid'', JNum 3), (''comment'', JStr ''nit'')]"
  let ?api = "sample_api\<lparr>MergeRequestDiscussions_all :=
                (\<lambda>project_id iid. Inr [[(''id'', JStr ''d1'')]])\<rparr>"
  have thrown: "CallToolRequest_try failing_api no_filters ''get_merge_request_details'' ?args =
     ([Call_MergeRequests_show (JNum 7) (JNum 3)], Inl not_found)"
    by (simp add: CallToolRequest_try_def getMergeRequestDetails_js_def Let_def property_def
          failing_api_def bindE_def)
  have translated: "formatErrorResponse not_found =
      failure_result ''Error: Not Found - 404 Project Not Found''"
    by (simp add: formatErrorResponse_def not_found_def failure_result_def or_else_def
          cause_description_def)
  have required: "formatErrorResponse (Error ''project_id, merge_request_iid, and comment are required'') =
      failure_result
        ''Error: project_id, merge_request_iid, and comment are required - No additional details''"
    by (simp add: formatErrorResponse_Error)
  have shaping: "FilteredComments author_name_js [[(''id'', JStr ''d1'')]] =
      Inl (TypeError_read JUndefined ''resolved'')"
    by (simp add: FilteredComments_def flatMap_notes_def property_def is_unresolved_def bindE_def)
  have type_error: "formatErrorResponse (TypeError_read JUndefined ''resolved'') =
      failure_result
        ''Error: Cannot read properties of undefined (reading 'resolved') - No additional details''"
    by (simp add: TypeError_read_def js_typeof_nullish_def formatErrorResponse_Error)
  have r: "registerTool_calls ! 2 \<in> set registerTool_calls"
    by (simp add: registerTool_calls_def)
  have props: "property ?args ''project_id'' = JNum 7" "property ?args ''merge_request_iid'' = JNum 3"
    "property ?args ''comment'' = JUndefined" "property ?args ''verbose'' = JUndefined"
    "property ?cargs ''project_id'' = JNum 7" "property ?cargs ''merge_request_iid'' = JNum 3"
    "property ?cargs ''comment'' = JStr ''nit''"
    by (simp_all add: property_def)
  have provider: "MergeRequestDiscussions_create failing_api (JNum 7) (JNum 3) (JStr ''nit'') None =
      Inl not_found"
    "MergeRequestDiscussions_all ?api (JNum 7) (JNum 3) = Inr [[(''id'', JStr ''d1'')]]"
    by (simp_all add: failing_api_def sample_api_def)
  note T1 = dispatcher_result_shape [where api = failing_api and env = no_filters
      and nm = "''get_merge_request_details''" and args = ?args and e = not_found]
  note T2 = dispatcher_result_shape [where api = failing_api and env = no_filters
      and nm = "''add_merge_request_comment''" and args = ?cargs and e = not_found]
  note T3 = dispatcher_result_shape [where api = ?api and env = no_filters
      and nm = "''get_merge_request_comments''" and args = ?args
      and e = "TypeError_read JUndefined ''resolved''"
      and discussions = "[[(''id'', JStr ''d1'')]]"]
  have a: "CallToolRequest_handler failing_api no_filters ''get_merge_request_details'' ?args =
     ([Call_MergeRequests_show (JNum 7) (JNum 3)],
      failure_result ''Error: Not Found - 404 Project Not Found'')"
    and b: "is_text_result (snd (callback (registerTool_calls ! 2) failing_api no_filters ?args))"
    using T1 thrown translated r by simp_all
  have c: "CallToolRequest_handler failing_api no_filters ''add_merge_request_comment'' ?cargs =
     ([Call_MergeRequestDiscussions_create (JNum 7) (JNum 3) (JStr ''nit'') None],
      failure_result ''Error: Not Found - 404 Project Not Found'')"
    and d: "call_registered failing_api no_filters ''add_merge_request_comment'' ?cargs =
     Some ([Call_MergeRequestDiscussions_create (JNum 7) (JNum 3) (JStr ''nit'') None],
           failure_result ''Error: Not Found - 404 Project Not Found'')"
    using T2 provider(1) translated by (simp_all add: props)
  have f: "call_registered failing_api no_filters ''add_merge_request_comment'' ?args =
     Some ([], failure_result
       ''Error: project_id, merge_request_iid, and comment are required - No additional details'')"
    using T1 required by (simp add: props)
  have g: "CallToolRequest_handler ?api no_filters ''get_merge_request_comments'' ?args =
     ([Call_MergeRequestDiscussions_all (JNum 7) (JNum 3)],
      failure_result
        ''Error: Cannot read properties of undefined (reading 'resolved') - No additional details'')"
    using T3 provider(2) shaping type_error by (simp add: props)
  have h: "is_text_result (failure_result ''Error: Not Found - 404 Project Not Found'')"
    by (simp add: is_text_result_def failure_result_def)
  have nc: "\<not> truthy (property ?args ''comment'')"
    by (simp add: props)
  from thrown a h r b provider(1) c d nc f shaping g show ?thesis
    by (intro conjI)
qed

subsection \<open>The diff comment\<close>

text \<open>
  Claim C7, as the code has it. The position passed to the provider's create-discussion
  call carries the three SHA values unchanged, the file path in both the old-path and
  the new-path field, the position type \<^verbatim>\<open>text\<close> and the line number in the new-line
  field: in the JavaScript variant for every argument mapping, in the TypeScript variant
  (whose fields are in camel case) whenever all eight arguments are truthy. In the
  TypeScript variant all eight arguments are required: when one is absent the callback
  returns a failure result naming it and makes no provider call.
\<close>

theorem diff_comment_position:
  "(\<exists>pos.
      fst (CallToolRequest_handler api env ''add_merge_request_diff_comment'' args) =
        [Call_MergeRequestDiscussions_create (property args ''project_id'')
           (property args ''merge_request_iid'') (property args ''comment'')
           (Some [(''position'', JObj pos)])] \<and>
      property pos ''base_sha'' = property args ''base_sha'' \<and>
      property pos ''start_sha'' = property args ''start_sha'' \<and>
      property pos ''head_sha'' = property args ''head_sha'' \<and>
      property pos ''old_path'' = property args ''file_path'' \<and>
      property pos ''new_path'' = property args ''file_path'' \<and>
      property pos ''position_type'' = JStr ''text'' \<and>
      property pos ''new_line'' = property args ''line_number'') \<and>
   ((\<forall>f \<in> set eight_arguments. truthy (property args f)) \<longrightarrow>
    (\<exists>pos.
      map_option fst (call_registered api env ''add_merge_request_diff_comment'' args) =
        Some [Call_MergeRequestDiscussions_create (property args ''project_id'')
           (property args ''merge_request_iid'') (property args ''comment'')
           (Some [(''position'', JObj pos)])] \<and>
      property pos ''baseSha'' = property args ''base_sha'' \<and>
      property pos ''startSha'' = property args ''start_sha'' \<and>
      property pos ''headSha'' = property args ''head_sha'' \<and>
      property pos ''oldPath'' = property args ''file_path'' \<and>
      property pos ''newPath'' = property args ''file_path'' \<and>
      property pos ''positionType'' = JStr ''text'' \<and>
      property pos ''newLine'' = property args ''line_number'')) \<and>
   (\<forall>f \<in> set eight_arguments. map_of args f = None \<longrightarrow>
      (\<exists>t. call_registered api env ''add_merge_request_diff_comment'' args =
              Some ([], failure_result t) \<and> contains_text t f))"
proof (intro conjI impI ballI)
  show "\<exists>pos.
      fst (CallToolRequest_handler api env ''add_merge_request_diff_comment'' args) =
        [Call_MergeRequestDiscussions_create (property args ''project_id'')
           (property args ''merge_request_iid'') (property args ''comment'')
           (Some [(''position'', JObj pos)])] \<and>
      property pos ''base_sha'' = property args ''base_sha'' \<and>
      property pos ''start_sha'' = property args ''start_sha'' \<and>
      property pos ''head_sha'' = property args ''head_sha'' \<and>
      property pos ''old_path'' = property args ''file_path'' \<and>
      property pos ''new_path'' = property args ''file_path'' \<and>
      property pos ''position_type'' = JStr ''text'' \<and>
      property pos ''new_line'' = property args ''line_number''"
    by (intro exI [of _ "position_js args"])
       (simp add: handler_eqs catch_format_def addMergeRequestDiffComment_js_def Let_def
          position_js_def property_def [of "_ # _"] split: prod.splits sum.splits)
next
  assume "\<forall>f \<in> set eight_arguments. truthy (property args f)"
  then have ok: "truthy (property args ''project_id'')" "truthy (property args ''merge_request_iid'')"
     "truthy (property args ''comment'')" "truthy (property args ''base_sha'')"
     "truthy (property args ''start_sha'')" "truthy (property args ''head_sha'')"
     "truthy (property args ''file_path'')" "truthy (property args ''line_number'')"
    by (simp_all add: eight_arguments_def)
  show "\<exists>pos.
      map_option fst (call_registered api env ''add_merge_request_diff_comment'' args) =
        Some [Call_MergeRequestDiscussions_create (property args ''project_id'')
           (property args ''merge_request_iid'') (property args ''comment'')
           (Some [(''position'', JObj pos)])] \<and>
      property pos ''baseSha'' = property args ''base_sha'' \<and>
      property pos ''startSha'' = property args ''start_sha'' \<and>
      property pos ''headSha'' = property args ''head_sha'' \<and>
      property pos ''oldPath'' = property args ''file_path'' \<and>
      property pos ''newPath'' = property args ''file_path'' \<and>
      property pos ''positionType'' = JStr ''text'' \<and>
      property pos ''newLine'' = property args ''line_number''"
    using ok
    by (intro exI [of _ "position_ts args"])
       (simp add: call_registered_eqs catch_format_def addMergeRequestDiffComment_ts_def Let_def
          position_ts_def property_def [of "_ # _"] split: prod.splits sum.splits)
next
  fix f
  assume f: "f \<in> set eight_arguments" and a: "map_of args f = None"
  have "\<not> truthy (property args f)"
    using a by (simp add: property_absent)
  with f have "addMergeRequestDiffComment_ts api args = ([], Inl (Error
       ''project_id, merge_request_iid, comment, base_sha, start_sha, head_sha, file_path, and line_number are required''))"
    by (intro addMergeRequestDiffComment_ts_rejects) (auto simp: eight_arguments_def)
  moreover have "contains_text ''project_id, merge_request_iid, comment, base_sha, start_sha, head_sha, file_path, and line_number are required'' f"
    using f diff_comment_message by (auto simp: eight_arguments_def)
  ultimately show "\<exists>t. call_registered api env ''add_merge_request_diff_comment'' args =
              Some ([], failure_result t) \<and> contains_text t f"
    by (intro exI [of _ "''Error: '' @ ''project_id, merge_request_iid, comment, base_sha, start_sha, head_sha, file_path, and line_number are required'' @ '' - No additional details''"])
       (simp only: call_registered_eqs catch_format_thrown formatErrorResponse_Error
          contains_text_failure simp_thms)
qed

theorem diff_comment_position_witness:
  "list_all (\<lambda>f. truthy (property diff_comment_args f)) eight_arguments \<and>
   fst (CallToolRequest_handler sample_api no_filters ''add_merge_request_diff_comment''
          diff_comment_args) =
     [Call_MergeRequestDiscussions_create (JNum 7) (JNum 3) (JStr ''nit'')
        (Some [(''position'', JObj [(''base_sha'', JStr ''a1''), (''start_sha'', JStr ''b2''),
           (''head_sha'', JStr ''c3''), (''old_path'', JStr ''src/main.ts''),
           (''new_path'', JStr ''src/main.ts''), (''position_type'', JStr ''text''),
           (''new_line'', JStr ''42'')])])] \<and>
   (\<exists>pos.
      map_option fst (call_registered sample_api no_filters ''add_merge_request_diff_comment''
                        diff_comment_args) =
        Some [Call_MergeRequestDiscussions_create (JNum 7) (JNum 3) (JStr ''nit'')
                (Some [(''position'', JObj pos)])] \<and>
      property pos ''baseSha'' = JStr ''a1'' \<and> property pos ''startSha'' = JStr ''b2'' \<and>
      property pos ''headSha'' = JStr ''c3'' \<and> property pos ''oldPath'' = JStr ''src/main.ts'' \<and>
      property pos ''newPath'' = JStr ''src/main.ts'' \<and> property pos ''positionType'' = JStr ''text'' \<and>
      property pos ''newLine'' = JStr ''42'') \<and>
   ''line_number'' \<in> set eight_arguments \<and>
   map_of (butlast diff_comment_args) ''line_number'' = None \<and>
   (\<exists>t. call_registered sample_api no_filters ''add_merge_request_diff_comment''
           (butlast diff_comment_args) = Some ([], failure_result t) \<and>
        contains_text t ''line_number'')"
proof -
  have props: "property diff_comment_args ''project_id'' = JNum 7"
    "property diff_comment_args ''merge_request_iid'' = JNum 3"
    "property diff_comment_args ''comment'' = JStr ''nit''"
    "property diff_comment_args ''base_sha'' = JStr ''a1''"
    "property diff_comment_args ''start_sha'' = JStr ''b2''"
    "property diff_comment_args ''head_sha'' = JStr ''c3''"
    "property diff_comment_args ''file_path'' = JStr ''src/main.ts''"
    "property diff_comment_args ''line_number'' = JStr ''42''"
    by (simp_all add: diff_comment_args_def property_def)
  have all: "\<forall>f \<in> set eight_arguments. truthy (property diff_comment_args f)"
    by (simp add: eight_arguments_def props)
  have js: "fst (CallToolRequest_handler sample_api no_filters ''add_merge_request_diff_comment''
          diff_comment_args) =
     [Call_MergeRequestDiscussions_create (JNum 7) (JNum 3) (JStr ''nit'')
        (Some [(''position'', JObj [(''base_sha'', JStr ''a1''), (''start_sha'', JStr ''b2''),
           (''head_sha'', JStr ''c3''), (''old_path'', JStr ''src/main.ts''),
           (''new_path'', JStr ''src/main.ts''), (''position_type'', JStr ''text''),
           (''new_line'', JStr ''42'')])])]"
    by (simp add: handler_eqs catch_format_def addMergeRequestDiffComment_js_def Let_def
          position_js_def props split: prod.splits sum.splits)
  have m: "''line_number'' \<in> set eight_arguments"
    by (simp add: eight_arguments_def)
  have a: "map_of (butlast diff_comment_args) ''line_number'' = None"
    by (simp add: diff_comment_args_def)
  from diff_comment_position [of sample_api no_filters diff_comment_args] all
  have ts: "\<exists>pos.
      map_option fst (call_registered sample_api no_filters ''add_merge_request_diff_comment''
                        diff_comment_args) =
        Some [Call_MergeRequestDiscussions_create (JNum 7) (JNum 3) (JStr ''nit'')
                (Some [(''position'', JObj pos)])] \<and>
      property pos ''baseSha'' = JStr ''a1'' \<and> property pos ''startSha'' = JStr ''b2'' \<and>
      property pos ''headSha'' = JStr ''c3'' \<and> property pos ''oldPath'' = JStr ''src/main.ts'' \<and>
      property pos ''newPath'' = JStr ''src/main.ts'' \<and> property pos ''positionType'' = JStr ''text'' \<and>
      property pos ''newLine'' = JStr ''42''"
    unfolding props by blast
  from diff_comment_position [of sample_api no_filters "butlast diff_comment_args"] m a
  have missing: "\<exists>t. call_registered sample_api no_filters ''add_merge_request_diff_comment''
           (butlast diff_comment_args) = Some ([], failure_result t) \<and>
        contains_text t ''line_number''"
    by blast
  from all have all': "list_all (\<lambda>f. truthy (property diff_comment_args f)) eight_arguments"
    by (simp add: list_all_iff)
  from all' js ts m a missing show ?thesis by blast
qed

text \<open>
  The claim as it was stated fails on the JavaScript variant: without \<^verbatim>\<open>line_number\<close> the
  handler still calls the provider, with \<^verbatim>\<open>undefined\<close> in the new-line field, and returns
  a result that is not flagged as a failure.
\<close>

theorem diff_comment_without_line_reaches_provider:
  "''line_number'' \<in> set eight_arguments \<and>
   map_of (butlast diff_comment_args) ''line_number'' = None \<and>
   fst (CallToolRequest_handler sample_api no_filters ''add_merge_request_diff_comment''
          (butlast diff_comment_args)) =
     [Call_MergeRequestDiscussions_create (JNum 7) (JNum 3) (JStr ''nit'')
        (Some [(''position'', JObj [(''base_sha'', JStr ''a1''), (''start_sha'', JStr ''b2''),
           (''head_sha'', JStr ''c3''), (''old_path'', JStr ''src/main.ts''),
           (''new_path'', JStr ''src/main.ts''), (''position_type'', JStr ''text''),
           (''new_line'', JUndefined)])])] \<and>
   isError (snd (CallToolRequest_handler sample_api no_filters ''add_merge_request_diff_comment''
                   (butlast diff_comment_args))) = None \<and>
   fst (CallToolRequest_handler failing_api no_filters ''add_merge_request_diff_comment''
          (butlast diff_comment_args)) \<noteq> []"
  by (simp add: handler_eqs catch_format_def addMergeRequestDiffComment_js_def Let_def
        position_js_def diff_comment_args_def property_def sample_api_def failing_api_def
        bindE_def text_response_def eight_arguments_def)

end
